theory Spec2Isabelle
  imports Complex_Main
begin

section \<open>Numbers, vectors and the library helpers the program calls\<close>

text \<open>
  JavaScript numbers and GLSL floats are modelled as \<^typ>\<open>real\<close>: every statement below
  is about the arithmetic the program writes down, not about rounding. The helpers of
  \<^verbatim>\<open>THREE.MathUtils\<close> and the GLSL built-in \<^verbatim>\<open>clamp\<close> belong to libraries outside
  the repository; they are written here from their library definitions. A call of
  \<^verbatim>\<open>Math.random()\<close> is a read of a stream \<open>rnd :: nat \<Rightarrow> real\<close> at the position
  given by the number of draws made so far.
\<close>

datatype vec3 = Vector3 (vx: real) (vy: real) (vz: real)

definition vadd :: "vec3 \<Rightarrow> vec3 \<Rightarrow> vec3" where
  "vadd a b = Vector3 (vx a + vx b) (vy a + vy b) (vz a + vz b)"

definition vsub :: "vec3 \<Rightarrow> vec3 \<Rightarrow> vec3" where
  "vsub a b = Vector3 (vx a - vx b) (vy a - vy b) (vz a - vz b)"

definition divideScalar :: "vec3 \<Rightarrow> real \<Rightarrow> vec3" where
  "divideScalar a s = Vector3 (vx a / s) (vy a / s) (vz a / s)"

definition clamp :: "real \<Rightarrow> real \<Rightarrow> real \<Rightarrow> real" where
  \<comment> \<open>\<^verbatim>\<open>THREE.MathUtils.clamp(value, min, max)\<close>\<close>
  "clamp v lo hi = max lo (min hi v)"

definition glsl_clamp :: "real \<Rightarrow> real \<Rightarrow> real \<Rightarrow> real" where
  \<comment> \<open>GLSL \<^verbatim>\<open>clamp(x, minVal, maxVal)\<close>\<close>
  "glsl_clamp v lo hi = min (max v lo) hi"

definition mapLinear :: "real \<Rightarrow> real \<Rightarrow> real \<Rightarrow> real \<Rightarrow> real \<Rightarrow> real" where
  \<comment> \<open>\<^verbatim>\<open>THREE.MathUtils.mapLinear(x, a1, a2, b1, b2)\<close>\<close>
  "mapLinear v a1 a2 b1 b2 = b1 + (v - a1) * (b2 - b1) / (a2 - a1)"

definition randFloat :: "real \<Rightarrow> real \<Rightarrow> real \<Rightarrow> real" where
  \<comment> \<open>\<^verbatim>\<open>THREE.MathUtils.randFloat(low, high)\<close>, with the draw \<open>r\<close> of \<^verbatim>\<open>Math.random()\<close>\<close>
  "randFloat low high r = low + r * (high - low)"

definition randFloatSpread :: "real \<Rightarrow> real \<Rightarrow> real" where
  \<comment> \<open>\<^verbatim>\<open>THREE.MathUtils.randFloatSpread(range)\<close>, with the draw \<open>r\<close>\<close>
  "randFloatSpread rng r = rng * (1 / 2 - r)"

definition unit_draws :: "(nat \<Rightarrow> real) \<Rightarrow> bool" where
  \<comment> \<open>what \<^verbatim>\<open>Math.random()\<close> promises of every draw\<close>
  "unit_draws rnd \<longleftrightarrow> (\<forall>n. 0 \<le> rnd n \<and> rnd n < 1)"

section \<open>Slide: the per-face animation data\<close>

datatype phase = PhaseIn | PhaseOut

definition minDuration :: real where "minDuration = 8 / 10"
definition maxDuration :: real where "maxDuration = 12 / 10"
definition maxDelayX :: real where "maxDelayX = 9 / 10"
definition maxDelayY :: real where "maxDelayY = 125 / 1000"
definition stretch :: real where "stretch = 11 / 100"

definition totalDuration :: real where
  "totalDuration = maxDuration + maxDelayX + maxDelayY + stretch"

definition getControlPoint0 :: "vec3 \<Rightarrow> phase \<Rightarrow> real \<Rightarrow> real \<Rightarrow> real \<Rightarrow> vec3" where
  "getControlPoint0 centroid animationPhase r1 r2 r3 =
     (let signY = sgn (vy centroid);
          point = Vector3 (randFloat (1 / 10) (3 / 10) r1 * 50)
                          (signY * randFloat (1 / 10) (3 / 10) r2 * 70)
                          (randFloatSpread 20 r3)
      in if animationPhase = PhaseIn then vsub centroid point else vadd centroid point)"

definition getControlPoint1 :: "vec3 \<Rightarrow> phase \<Rightarrow> real \<Rightarrow> real \<Rightarrow> real \<Rightarrow> vec3" where
  "getControlPoint1 centroid animationPhase r1 r2 r3 =
     (let signY = sgn (vy centroid);
          point = Vector3 (randFloat (3 / 10) (6 / 10) r1 * 50)
                          (- signY * randFloat (3 / 10) (6 / 10) r2 * 70)
                          (randFloatSpread 20 r3)
      in if animationPhase = PhaseIn then vsub centroid point else vadd centroid point)"

text \<open>
  One entry of the attribute buffers \<^verbatim>\<open>aAnimation\<close> (delay, duration),
  \<^verbatim>\<open>aStartPosition\<close>, \<^verbatim>\<open>aControl0\<close>, \<^verbatim>\<open>aControl1\<close>, \<^verbatim>\<open>aEndPosition\<close> and of
  the rewritten \<^verbatim>\<open>position\<close> attribute, for one vertex.
\<close>

record vertexData =
  delay :: real
  duration :: real
  startPosition :: vec3
  control0 :: vec3
  control1 :: vec3
  endPosition :: vec3
  position :: vec3

type_synonym face = "vec3 \<times> vec3 \<times> vec3"

definition faceCentroid :: "face \<Rightarrow> vec3" where
  "faceCentroid f =
     (case f of (v0, v1, v2) \<Rightarrow>
        divideScalar (vadd (vadd (vadd (Vector3 0 0 0) v0) v1) v2) 3)"

definition faceDuration :: "(nat \<Rightarrow> real) \<Rightarrow> nat \<Rightarrow> real" where
  "faceDuration rnd k = randFloat minDuration maxDuration (rnd k)"

definition faceDelayX :: "real \<Rightarrow> vec3 \<Rightarrow> real" where
  "faceDelayX width centroid =
     mapLinear (vx centroid) (- width * (1 / 2)) (width * (1 / 2)) 0 maxDelayX"

definition faceDelayY :: "real \<Rightarrow> phase \<Rightarrow> vec3 \<Rightarrow> real" where
  "faceDelayY height animationPhase centroid =
     (if animationPhase = PhaseIn
      then mapLinear \<bar>vy centroid\<bar> 0 (height * (1 / 2)) 0 maxDelayY
      else mapLinear \<bar>vy centroid\<bar> 0 (height * (1 / 2)) maxDelayY 0)"

text \<open>
  The body of the loop over the faces (\<^verbatim>\<open>for (let i = 0; i < faceCount; i++)\<close>). The
  draws are taken in the order the source makes them: one for the duration at position
  \<open>k\<close>, one inside the inner loop for each of the three vertices (\<open>k + 1 + v\<close>), three in
  \<^verbatim>\<open>getControlPoint0\<close> and three in \<^verbatim>\<open>getControlPoint1\<close>: ten per face.
\<close>

definition processFace ::
  "real \<Rightarrow> real \<Rightarrow> phase \<Rightarrow> (nat \<Rightarrow> real) \<Rightarrow> nat \<Rightarrow> face \<Rightarrow> vertexData list" where
  "processFace width height animationPhase rnd k f =
     (case f of (v0, v1, v2) \<Rightarrow>
        let centroid = faceCentroid f;
            dur = faceDuration rnd k;
            delayX = faceDelayX width centroid;
            delayY = faceDelayY height animationPhase centroid;
            c0 = getControlPoint0 centroid animationPhase (rnd (k + 4)) (rnd (k + 5)) (rnd (k + 6));
            c1 = getControlPoint1 centroid animationPhase (rnd (k + 7)) (rnd (k + 8)) (rnd (k + 9))
        in map (\<lambda>(v, originalPos).
                  \<lparr> delay = delayX + delayY + rnd (k + 1 + v) * stretch * dur,
                    duration = dur,
                    startPosition = centroid,
                    control0 = c0,
                    control1 = c1,
                    endPosition = centroid,
                    position = vsub originalPos centroid \<rparr>)
               [(0, v0), (1, v1), (2, v2)])"

fun processFaces ::
  "real \<Rightarrow> real \<Rightarrow> phase \<Rightarrow> (nat \<Rightarrow> real) \<Rightarrow> nat \<Rightarrow> face list \<Rightarrow> vertexData list list" where
  "processFaces width height animationPhase rnd k [] = []"
| "processFaces width height animationPhase rnd k (f # fs) =
     processFace width height animationPhase rnd k f
       # processFaces width height animationPhase rnd (k + 10) fs"

text \<open>The image bound to a slide; the program reads only its pixel dimensions.\<close>

record texture =
  image_width :: real
  image_height :: real

text \<open>
  A \<^verbatim>\<open>Slide\<close>: the attribute buffers face by face, the uniforms \<^verbatim>\<open>uTime\<close>,
  \<^verbatim>\<open>uPhase\<close> and \<^verbatim>\<open>uTexture\<close>, and the fields \<^verbatim>\<open>totalDuration\<close> and
  \<^verbatim>\<open>animationPhase\<close>. The triangles of
  \<^verbatim>\<open>new THREE.PlaneGeometry(width, height, width * 2, height * 2).toNonIndexed()\<close> come
  from the library and are an argument of the constructor.
\<close>

record slide =
  faceData :: "vertexData list list"
  uTime :: real
  uPhase :: real
  uTexture :: "texture option"
  slideTotalDuration :: real
  animationPhase :: phase

definition Slide_new ::
  "real \<Rightarrow> real \<Rightarrow> phase \<Rightarrow> face list \<Rightarrow> (nat \<Rightarrow> real) \<Rightarrow> nat \<Rightarrow> slide" where
  "Slide_new width height phase0 faces rnd k =
     \<lparr> faceData = processFaces width height phase0 rnd k faces,
       uTime = 0,
       uPhase = (if phase0 = PhaseIn then 1 else - 1),
       uTexture = None,
       slideTotalDuration = totalDuration,
       animationPhase = phase0 \<rparr>"

definition set_phase :: "phase \<Rightarrow> slide \<Rightarrow> slide" where
  "set_phase v s = s\<lparr>animationPhase := v, uPhase := (if v = PhaseIn then 1 else - 1)\<rparr>"

definition set_time :: "real \<Rightarrow> slide \<Rightarrow> slide" where
  "set_time v s = s\<lparr>uTime := v\<rparr>"

definition setTexture :: "texture \<Rightarrow> slide \<Rightarrow> slide" where
  "setTexture t s = s\<lparr>uTexture := Some t\<rparr>"

subsection \<open>The vertex shader's progress\<close>

definition ease :: "real \<Rightarrow> real \<Rightarrow> real \<Rightarrow> real \<Rightarrow> real" where
  "ease t b c d =
     (let t1 = t / (d / 2)
      in if t1 < 1 then c / 2 * t1 * t1 * t1 + b
         else let t2 = t1 - 2 in c / 2 * (t2 * t2 * t2 + 2) + b)"

definition tProgress :: "real \<Rightarrow> real \<Rightarrow> real \<Rightarrow> real" where
  \<comment> \<open>\<^verbatim>\<open>main()\<close>: \<open>tm\<close> is \<^verbatim>\<open>uTime\<close>, \<open>tDelay\<close> and \<open>tDuration\<close> are \<^verbatim>\<open>aAnimation.xy\<close>\<close>
  "tProgress tm tDelay tDuration =
     (let tTime = glsl_clamp (tm - tDelay) 0 tDuration
      in ease tTime 0 1 tDuration)"

section \<open>ImageGallery\<close>

definition MAX_WIDTH :: real where "MAX_WIDTH = 100"
definition MAX_HEIGHT :: real where "MAX_HEIGHT = 60"

text \<open>The entries of \<^verbatim>\<open>GALLERY_CONFIG\<close> that the modelled methods read.\<close>

definition autoAdvance :: bool where "autoAdvance = False"
definition preloadRadius :: int where "preloadRadius = 3"

definition calculatePlaneDimensions :: "real \<Rightarrow> real \<Rightarrow> real \<times> real" where
  \<comment> \<open>returns (width, height)\<close>
  "calculatePlaneDimensions imageWidth imageHeight =
     (let imageAspect = imageWidth / imageHeight;
          maxAspect = MAX_WIDTH / MAX_HEIGHT
      in if imageAspect > maxAspect then (MAX_WIDTH, MAX_WIDTH / imageAspect)
         else (MAX_HEIGHT * imageAspect, MAX_HEIGHT))"

text \<open>
  What the gallery gets from outside: the outcome of \<^verbatim>\<open>loadTexture\<close> for each path
  (\<open>Inl\<close> the error the promise is rejected with, \<open>Inr\<close> the texture), the triangles of
  the plane geometry for given dimensions, and the stream of \<^verbatim>\<open>Math.random()\<close>.
  A load settles at the point where the program starts it: no other event runs between
  the start of a load and its outcome.
\<close>

record env =
  loadTexture :: "string \<Rightarrow> string + texture"
  planeGeometry :: "real \<Rightarrow> real \<Rightarrow> face list"
  random :: "nat \<Rightarrow> real"

text \<open>
  A GSAP timeline as far as the program uses it: \<^verbatim>\<open>progress()\<close>, the paused flag, and
  the \<^verbatim>\<open>targetIndex\<close> its \<^verbatim>\<open>onComplete\<close> closure has captured. A timeline made by
  \<^verbatim>\<open>gsap.timeline(...)\<close> starts playing at progress 0. The tweens that write
  \<^verbatim>\<open>uTime\<close> of the two slides while it plays run inside GSAP and are not modelled, nor
  are the scene graph and the disposal of GPU resources.
\<close>

record timeline =
  tl_progress :: real
  tl_paused :: bool
  tl_target :: int

record gallery =
  imagePaths :: "string list"
  currentIndex :: int
  textures :: "int \<Rightarrow> texture option"
  currentSlide :: "slide option"
  nextSlide :: "slide option"
  isTransitioning :: bool
  isPaused :: bool
  timeline :: "timeline option"
  autoAdvanceTimer :: bool
  randomCalls :: nat
  transitionPending :: bool

text \<open>
  \<open>randomCalls\<close> is the position in the stream of \<^verbatim>\<open>Math.random()\<close> and
  \<open>transitionPending\<close> says whether the promise that \<^verbatim>\<open>transitionTo\<close> returned is
  still unresolved, that is, whether a \<^verbatim>\<open>next()\<close> or \<^verbatim>\<open>previous()\<close> is suspended at
  its \<^verbatim>\<open>await\<close>: the two pieces of state here that are not fields of the class.
  \<open>autoAdvanceTimer\<close> says whether a timeout is armed.

  The result of an \<^verbatim>\<open>async\<close> method is the state of the promise it returns once the
  synchronous part and the texture load have run: resolved, rejected with an error, or
  pending until the timeline's \<^verbatim>\<open>onComplete\<close> calls \<^verbatim>\<open>resolve()\<close>.
\<close>

datatype task = Resolved | Rejected string | Pending

definition js_rem :: "int \<Rightarrow> int \<Rightarrow> int" where
  \<comment> \<open>JavaScript's \<^verbatim>\<open>%\<close> on integers: the result has the sign of the dividend
      (the program divides by the number of images, which it has checked to be at least 2)\<close>
  "js_rem a b = sgn a * (\<bar>a\<bar> mod \<bar>b\<bar>)"

definition path_at :: "string list \<Rightarrow> int \<Rightarrow> string" where
  \<comment> \<open>\<^verbatim>\<open>imagePaths[i]\<close>; out of range it is \<^verbatim>\<open>undefined\<close>, which the loader reads as a URL\<close>
  "path_at paths i =
     (if 0 \<le> i \<and> i < int (length paths) then paths ! nat i else ''undefined'')"

definition gallery_new :: "string list \<Rightarrow> gallery" where
  "gallery_new paths =
     \<lparr> imagePaths = paths, currentIndex = 0, textures = Map.empty, currentSlide = None,
       nextSlide = None, isTransitioning = False, isPaused = False, timeline = None,
       autoAdvanceTimer = False, randomCalls = 0, transitionPending = False \<rparr>"

definition stopAutoAdvance :: "gallery \<Rightarrow> gallery" where
  "stopAutoAdvance g = (if autoAdvanceTimer g then g\<lparr>autoAdvanceTimer := False\<rparr> else g)"

definition startAutoAdvance :: "gallery \<Rightarrow> gallery" where
  "startAutoAdvance g = (stopAutoAdvance g)\<lparr>autoAdvanceTimer := True\<rparr>"

definition newSlide :: "env \<Rightarrow> texture \<Rightarrow> gallery \<Rightarrow> slide \<times> nat" where
  \<comment> \<open>\<^verbatim>\<open>new Slide(dims.width, dims.height, 'in')\<close> then \<^verbatim>\<open>setTexture(texture)\<close>;
      also the position in the random stream after the constructor\<close>
  "newSlide e tex g =
     (case calculatePlaneDimensions (image_width tex) (image_height tex) of (w, h) \<Rightarrow>
        let faces = planeGeometry e w h
        in (setTexture tex (Slide_new w h PhaseIn faces (random e) (randomCalls g)),
            randomCalls g + 10 * length faces))"

definition transitionTo :: "env \<Rightarrow> int \<Rightarrow> gallery \<Rightarrow> string + gallery" where
  "transitionTo e targetIndex g =
     (case textures g targetIndex of
        None \<Rightarrow> Inl ''TypeError''
      | Some tex \<Rightarrow>
          (case newSlide e tex g of (ns, calls) \<Rightarrow>
             Inr (g\<lparr> nextSlide := Some ns,
                     currentSlide := map_option (\<lambda>s. set_time 0 (set_phase PhaseOut s)) (currentSlide g),
                     timeline := Some \<lparr> tl_progress = 0, tl_paused = False, tl_target = targetIndex \<rparr>,
                     randomCalls := calls,
                     transitionPending := True \<rparr>)))"

definition onComplete :: "int \<Rightarrow> gallery \<Rightarrow> gallery" where
  \<comment> \<open>the closure given to \<^verbatim>\<open>gsap.timeline\<close>; its last line, \<^verbatim>\<open>resolve()\<close>, settles the promise\<close>
  "onComplete targetIndex g =
     g\<lparr> currentSlide := nextSlide g, nextSlide := None,
        currentIndex := targetIndex, isTransitioning := False,
        transitionPending := False \<rparr>"

text \<open>
  \<^verbatim>\<open>timeline.progress(value)\<close>, from the behaviour of the GSAP library: the playhead
  moves to \<open>value\<close>; when it is there already nothing is rendered and no callback
  runs; when it is moved to the end, the timeline's \<^verbatim>\<open>onComplete\<close> runs inside the
  call, whether the timeline is paused or not.
\<close>

definition timeline_progress :: "real \<Rightarrow> gallery \<Rightarrow> gallery" where
  "timeline_progress v g =
     (case timeline g of
        None \<Rightarrow> g
      | Some tln \<Rightarrow>
          if tl_progress tln = v then g
          else let g1 = g\<lparr>timeline := Some (tln\<lparr>tl_progress := v\<rparr>)\<rparr>
               in if v = 1 then onComplete (tl_target tln) g1 else g1)"

text \<open>
  The lines that \<^verbatim>\<open>next()\<close> and \<^verbatim>\<open>previous()\<close> share after the index is computed:
  load the texture if it is not cached, then \<^verbatim>\<open>await this.transitionTo(index)\<close>.
  A rejected load leaves the method at the \<^verbatim>\<open>await\<close>: the promise is rejected and
  nothing after it runs.
\<close>

definition loadThenTransition :: "env \<Rightarrow> int \<Rightarrow> gallery \<Rightarrow> gallery \<times> task" where
  "loadThenTransition e index g =
     (case (case textures g index of
              Some t \<Rightarrow> Inr g
            | None \<Rightarrow>
                (case loadTexture e (path_at (imagePaths g) index) of
                   Inl err \<Rightarrow> Inl err
                 | Inr t \<Rightarrow> Inr (g\<lparr>textures := (textures g)(index \<mapsto> t)\<rparr>))) of
        Inl err \<Rightarrow> (g, Rejected err)
      | Inr g1 \<Rightarrow>
          (case transitionTo e index g1 of
             Inl err \<Rightarrow> (g1, Rejected err)
           | Inr g2 \<Rightarrow> (g2, Pending)))"

definition gallery_next :: "env \<Rightarrow> gallery \<Rightarrow> gallery \<times> task" where
  "gallery_next e g =
     (if isTransitioning g \<or> length (imagePaths g) < 2 then (g, Resolved)
      else let g1 = (stopAutoAdvance g)\<lparr>isTransitioning := True\<rparr>;
               nextIndex = js_rem (currentIndex g1 + 1) (int (length (imagePaths g1)))
           in loadThenTransition e nextIndex g1)"

definition gallery_previous :: "env \<Rightarrow> gallery \<Rightarrow> gallery \<times> task" where
  "gallery_previous e g =
     (if isTransitioning g \<or> length (imagePaths g) < 2 then (g, Resolved)
      else let g1 = (stopAutoAdvance g)\<lparr>isTransitioning := True\<rparr>;
               prevIndex = js_rem (currentIndex g1 - 1 + int (length (imagePaths g1)))
                                  (int (length (imagePaths g1)))
           in loadThenTransition e prevIndex g1)"

fun preloadLoop :: "env \<Rightarrow> int \<Rightarrow> int list \<Rightarrow> gallery \<Rightarrow> gallery" where
  "preloadLoop e centerIndex [] g = g"
| "preloadLoop e centerIndex (offset # offsets) g =
     (let n = int (length (imagePaths g));
          targetIndex = js_rem (centerIndex + offset + n) n;
          g1 = (case textures g targetIndex of
                  Some t \<Rightarrow> g
                | None \<Rightarrow>
                    (case loadTexture e (path_at (imagePaths g) targetIndex) of
                       Inl err \<Rightarrow> g
                     | Inr t \<Rightarrow> g\<lparr>textures := (textures g)(targetIndex \<mapsto> t)\<rparr>))
      in preloadLoop e centerIndex offsets g1)"

definition preloadAround :: "env \<Rightarrow> int \<Rightarrow> gallery \<Rightarrow> gallery" where
  "preloadAround e centerIndex g =
     preloadLoop e centerIndex (filter (\<lambda>offset. offset \<noteq> 0) [- preloadRadius..preloadRadius]) g"

definition afterTransition :: "env \<Rightarrow> gallery \<Rightarrow> gallery" where
  \<comment> \<open>what \<^verbatim>\<open>next()\<close> and \<^verbatim>\<open>previous()\<close> do once \<^verbatim>\<open>await this.transitionTo(...)\<close> returns\<close>
  "afterTransition e g =
     (let g1 = preloadAround e (currentIndex g) g
      in if autoAdvance then startAutoAdvance g1 else g1)"

definition resumeAwaiting :: "env \<Rightarrow> gallery \<Rightarrow> gallery \<Rightarrow> gallery" where
  \<comment> \<open>the microtask after a step from \<open>before\<close> to \<open>g\<close>: when the step has resolved the promise
      of \<^verbatim>\<open>transitionTo\<close>, the method suspended at its \<^verbatim>\<open>await\<close> goes on\<close>
  "resumeAwaiting e before g =
     (if transitionPending before \<and> \<not> transitionPending g then afterTransition e g else g)"

definition playheadTo :: "env \<Rightarrow> real \<Rightarrow> gallery \<Rightarrow> gallery" where
  \<comment> \<open>the playhead is moved, then the suspended method goes on if the move has completed the timeline\<close>
  "playheadTo e v g = resumeAwaiting e g (timeline_progress v g)"

definition timelineCompletes :: "env \<Rightarrow> gallery \<Rightarrow> gallery" where
  \<comment> \<open>playing, the timeline reaches its end: \<^verbatim>\<open>onComplete\<close> runs, then the awaiting method goes on\<close>
  "timelineCompletes e g = playheadTo e 1 g"

definition togglePause :: "gallery \<Rightarrow> gallery" where
  "togglePause g =
     (case timeline g of
        None \<Rightarrow> g
      | Some tln \<Rightarrow>
          let p = \<not> isPaused g
          in g\<lparr>isPaused := p, timeline := Some (tln\<lparr>tl_paused := p\<rparr>)\<rparr>)"

definition gallery_reset :: "env \<Rightarrow> gallery \<Rightarrow> gallery \<times> task option" where
  \<comment> \<open>the second component is the promise of the \<^verbatim>\<open>next()\<close> it calls, if it calls it\<close>
  "gallery_reset e g =
     (let g1 = stopAutoAdvance g
      in if currentIndex g1 \<noteq> 0
         then (case gallery_next e (g1\<lparr>currentIndex := int (length (imagePaths g1)) - 1\<rparr>) of
                 (g2, t) \<Rightarrow> (g2, Some t))
         else (g1, None))"

definition gallery_init :: "env \<Rightarrow> gallery \<Rightarrow> gallery \<times> task" where
  "gallery_init e g =
     (case loadTexture e (path_at (imagePaths g) 0) of
        Inl err \<Rightarrow> (g, Rejected err)
      | Inr texture1 \<Rightarrow>
          (let g1 = g\<lparr>textures := (textures g)(0 \<mapsto> texture1)\<rparr>
           in case newSlide e texture1 g1 of (s, calls) \<Rightarrow>
                let g2 = g1\<lparr>currentSlide := Some (set_time (slideTotalDuration s) s),
                            randomCalls := calls\<rparr>;
                    g3 = (if length (imagePaths g2) > 1
                          then preloadAround e (currentIndex g2) g2 else g2)
                in (if autoAdvance then startAutoAdvance g3 else g3, Resolved)))"

section \<open>createTweenScrubber\<close>

datatype direction = Next | Previous

definition threshold :: real where "threshold = 30"

definition seekSpeed :: real where
  \<comment> \<open>the default of the parameter; the one call, \<^verbatim>\<open>createTweenScrubber(gallery)\<close>, takes it\<close>
  "seekSpeed = 1 / 1000"

record scrubber =
  cx :: real
  startX :: real
  mouseDown :: bool
  transitionInitiated :: bool
  transitionDirection :: "direction option"

text \<open>
  The scrubber's closure variables, the gallery it holds, and whether a
  \<^verbatim>\<open>.then(...)\<close> callback of \<open>seek\<close> is waiting on a promise that is still pending.
  An event is modelled together with the microtasks that follow it: a step that
  completes the timeline is followed by the rest of the suspended \<^verbatim>\<open>next()\<close> or
  \<^verbatim>\<open>previous()\<close> and then, its promise being fulfilled, by the waiting callback.
\<close>

record world =
  scrub :: scrubber
  gal :: gallery
  thenPending :: bool

definition pauseTimeline :: "gallery \<Rightarrow> gallery" where
  \<comment> \<open>\<^verbatim>\<open>stop()\<close>: \<^verbatim>\<open>if (galleryInstance.timeline) galleryInstance.timeline.pause()\<close>\<close>
  "pauseTimeline g =
     (case timeline g of None \<Rightarrow> g | Some tln \<Rightarrow> g\<lparr>timeline := Some (tln\<lparr>tl_paused := True\<rparr>)\<rparr>)"

definition resume :: "gallery \<Rightarrow> gallery" where
  "resume g =
     (case timeline g of None \<Rightarrow> g | Some tln \<Rightarrow> g\<lparr>timeline := Some (tln\<lparr>tl_paused := False\<rparr>)\<rparr>)"

definition thenCallback :: "world \<Rightarrow> world" where
  \<comment> \<open>\<^verbatim>\<open>() => { if (galleryInstance.timeline && mouseDown) galleryInstance.timeline.pause(); }\<close>\<close>
  "thenCallback w = (if mouseDown (scrub w) then w\<lparr>gal := pauseTimeline (gal w)\<rparr> else w)"

definition attachThen :: "task \<Rightarrow> world \<Rightarrow> world" where
  \<comment> \<open>\<^verbatim>\<open>promise.then(callback)\<close>: the callback runs when the promise is fulfilled, never when it is rejected\<close>
  "attachThen t w =
     (case t of
        Resolved \<Rightarrow> thenCallback w
      | Rejected err \<Rightarrow> w
      | Pending \<Rightarrow> w\<lparr>thenPending := True\<rparr>)"

definition fulfilThen :: "gallery \<Rightarrow> world \<Rightarrow> world" where
  \<comment> \<open>after a step from the gallery \<open>before\<close>: when the step has resolved the promise of
      \<^verbatim>\<open>transitionTo\<close>, the navigation promise is fulfilled and a waiting callback runs\<close>
  "fulfilThen before w =
     (if thenPending w \<and> transitionPending before \<and> \<not> transitionPending (gal w)
      then thenCallback (w\<lparr>thenPending := False\<rparr>) else w)"

definition seek :: "env \<Rightarrow> real \<Rightarrow> real \<Rightarrow> world \<Rightarrow> world" where
  "seek e dx totalDx w =
     (let s = scrub w; g = gal w;
          needsNewTimeline = (case timeline g of None \<Rightarrow> True | Some tln \<Rightarrow> tl_progress tln = 1)
      in if needsNewTimeline \<and> \<not> transitionInitiated s \<and> \<not> isTransitioning g \<and> \<bar>totalDx\<bar> > threshold
         then let d = (if totalDx > 0 then Next else Previous);
                  s1 = s\<lparr>transitionInitiated := True, transitionDirection := Some d\<rparr>
              in (case (if d = Next then gallery_next e g else gallery_previous e g) of
                    (g1, t) \<Rightarrow> attachThen t (w\<lparr>scrub := s1, gal := g1\<rparr>))
         else (case timeline g of
                 None \<Rightarrow> w
               | Some tln \<Rightarrow>
                   if transitionInitiated s
                   then let progress = tl_progress tln;
                            effectiveDx = (if transitionDirection s = Some Previous then - dx else dx);
                            newProgress = clamp (progress + effectiveDx * seekSpeed) 0 1
                        in fulfilThen g (w\<lparr>gal := playheadTo e newProgress g\<rparr>)
                   else w))"

definition mousedown :: "real \<Rightarrow> world \<Rightarrow> world" where
  "mousedown clientX w =
     (let s = (scrub w)\<lparr> mouseDown := True, transitionInitiated := False,
                          transitionDirection := None, cx := clientX, startX := clientX \<rparr>
      in case timeline (gal w) of
           None \<Rightarrow> w\<lparr>scrub := s\<rparr>
         | Some tln \<Rightarrow>
             if tl_progress tln < 1
             then w\<lparr>scrub := s\<lparr>transitionInitiated := True\<rparr>, gal := pauseTimeline (gal w)\<rparr>
             else w\<lparr>scrub := s\<rparr>)"

definition mouseup :: "world \<Rightarrow> world" where
  "mouseup w =
     w\<lparr> scrub := (scrub w)\<lparr> mouseDown := False, transitionInitiated := False,
                              transitionDirection := None \<rparr>,
         gal := resume (gal w) \<rparr>"

definition mousemove :: "env \<Rightarrow> real \<Rightarrow> world \<Rightarrow> world" where
  "mousemove e clientX w =
     (if mouseDown (scrub w)
      then let dx = clientX - cx (scrub w);
               totalDx = clientX - startX (scrub w)
           in seek e dx totalDx (w\<lparr>scrub := (scrub w)\<lparr>cx := clientX\<rparr>\<rparr>)
      else w)"

definition transitionCompletes :: "env \<Rightarrow> world \<Rightarrow> world" where
  \<comment> \<open>the timeline ends; the navigation promise is fulfilled, so a waiting callback runs\<close>
  "transitionCompletes e w = fulfilThen (gal w) (w\<lparr>gal := timelineCompletes e (gal w)\<rparr>)"


section \<open>Concrete inputs\<close>

text \<open>
  The values the closed theorems below are evaluated at. \<open>cornerFace\<close> is the second
  triangle of the top right cell of \<^verbatim>\<open>PlaneGeometry(100, 60, 200, 120)\<close>, the plane
  of an image of aspect 5:3; in the environments it stands for the plane's triangles.
  \<open>gallery_ab\<close> and \<open>gallery_abc\<close> are the states \<^verbatim>\<open>init()\<close> leaves
  (\<open>gallery_ab_reached\<close>, \<open>gallery_abc_reached\<close>).
\<close>

definition cornerFace :: face where
  "cornerFace = (Vector3 (99 / 2) (59 / 2) 0, Vector3 50 (59 / 2) 0, Vector3 50 30 0)"

definition draws_high :: "nat \<Rightarrow> real" where "draws_high n = 99 / 100"

definition draws_ramp :: "nat \<Rightarrow> real" where "draws_ramp n = real (n mod 10) / 10"

definition photo :: texture where "photo = \<lparr> image_width = 1000, image_height = 600 \<rparr>"

definition env_all :: env where
  "env_all = \<lparr> loadTexture = (\<lambda>p. Inr photo), planeGeometry = (\<lambda>w h. [cornerFace]),
                random = draws_ramp \<rparr>"

definition env_first_only :: env where
  "env_first_only =
     \<lparr> loadTexture = (\<lambda>p. if p = ''a.jpg'' then Inr photo else Inl ''NotFound''),
       planeGeometry = (\<lambda>w h. [cornerFace]), random = draws_ramp \<rparr>"

definition first_slide :: slide where
  "first_slide =
     set_time totalDuration (setTexture photo (Slide_new 100 60 PhaseIn [cornerFace] draws_ramp 0))"

definition gallery_ab :: gallery where
  "gallery_ab =
     \<lparr> imagePaths = [''a.jpg'', ''b.jpg''], currentIndex = 0, textures = [0 \<mapsto> photo],
       currentSlide = Some first_slide, nextSlide = None, isTransitioning = False,
       isPaused = False, timeline = None, autoAdvanceTimer = False, randomCalls = 10,
       transitionPending = False \<rparr>"

definition gallery_abc :: gallery where
  "gallery_abc =
     \<lparr> imagePaths = [''a.jpg'', ''b.jpg'', ''c.jpg''], currentIndex = 0,
       textures = [0 \<mapsto> photo, 1 \<mapsto> photo, 2 \<mapsto> photo],
       currentSlide = Some first_slide, nextSlide = None, isTransitioning = False,
       isPaused = False, timeline = None, autoAdvanceTimer = False, randomCalls = 10,
       transitionPending = False \<rparr>"

definition idle_scrubber :: scrubber where
  "idle_scrubber =
     \<lparr> cx = 0, startX = 0, mouseDown = False, transitionInitiated = False,
       transitionDirection = None \<rparr>"

definition world_abc :: world where
  "world_abc = \<lparr> scrub = idle_scrubber, gal = gallery_abc, thenPending = False \<rparr>"

text \<open>
  \<open>world_dragged\<close>: the pointer pressed at 0 and moved to 40 on the idle gallery;
  \<open>world_dragged_left\<close>: pressed at 0 and moved to -40.
  \<open>world_back\<close>: on the idle gallery, \<^verbatim>\<open>previous()\<close> called from the keyboard.
\<close>

definition world_dragged :: world where
  "world_dragged = mousemove env_all 40 (mousedown 0 world_abc)"



text \<open>
  \<open>gallery_at1\<close>: the three-image gallery after one completed \<^verbatim>\<open>next()\<close>.
  \<open>gallery_mid\<close>: from there, a second \<^verbatim>\<open>next()\<close> has started its transition.
\<close>

definition gallery_at1 :: gallery where
  "gallery_at1 = timelineCompletes env_all (fst (gallery_next env_all gallery_abc))"

definition gallery_mid :: gallery where
  "gallery_mid = fst (gallery_next env_all gallery_at1)"

section \<open>The easing curve, as the shader has it and as the specification names it\<close>

text \<open>
  \<open>easeCurve\<close> is the curve of \<open>ease\<close> with \<open>b = 0\<close>, \<open>c = 1\<close>, as a function of
  \<open>t / (d / 2)\<close>. \<open>easeInOutCubic\<close> follows the words of the specification: the
  standard two-piece cubic ease, \<open>4t\<^sup>3\<close> on the first half and \<open>1 - (-2t + 2)\<^sup>3 / 2\<close>
  on the second.
\<close>

definition easeCurve :: "real \<Rightarrow> real" where
  "easeCurve u = (if u < 1 then 1 / 2 * u * u * u else 1 / 2 * ((u - 2) * (u - 2) * (u - 2) + 2))"

definition easeInOutCubic :: "real \<Rightarrow> real" where
  "easeInOutCubic u = (if u < 1 / 2 then 4 * u ^ 3 else 1 - (- 2 * u + 2) ^ 3 / 2)"

section \<open>Timing of the faces\<close>

text \<open>
  What holds of the timing the constructor writes, for draws in \<open>[0, 1)\<close> and a face
  whose centroid lies within the plane: the delay is not negative, the duration is
  positive, and \<open>delay + duration\<close> stays below
  \<open>maxDuration + maxDelayX + maxDelayY + stretch * maxDuration\<close>, the jitter being a
  fraction of \<open>stretch * duration\<close>.
\<close>

lemma faceDuration_bounds:
  assumes "unit_draws rnd"
  shows "8 / 10 \<le> faceDuration rnd k" and "faceDuration rnd k < 12 / 10"
proof -
  from assms have r: "0 \<le> rnd k" "rnd k < 1" by (simp_all add: unit_draws_def)
  show "8 / 10 \<le> faceDuration rnd k"
    using r by (simp add: faceDuration_def randFloat_def minDuration_def maxDuration_def)
  show "faceDuration rnd k < 12 / 10"
    using r by (simp add: faceDuration_def randFloat_def minDuration_def maxDuration_def)
qed

lemma faceDelayX_bounds:
  assumes "0 < width" and "\<bar>vx c\<bar> \<le> width / 2"
  shows "0 \<le> faceDelayX width c" and "faceDelayX width c \<le> 9 / 10"
proof -
  define q where "q = (vx c + width / 2) / width"
  have e: "faceDelayX width c = q * (9 / 10)"
    by (simp add: q_def faceDelayX_def mapLinear_def maxDelayX_def)
  from assms have n: "0 \<le> vx c + width / 2" "vx c + width / 2 \<le> width" by linarith+
  from n assms(1) have q: "0 \<le> q" "q \<le> 1" by (simp_all add: q_def)
  show "0 \<le> faceDelayX width c" unfolding e using q by linarith
  show "faceDelayX width c \<le> 9 / 10" unfolding e using q by linarith
qed

lemma faceDelayY_bounds:
  assumes "0 < height" and "\<bar>vy c\<bar> \<le> height / 2"
  shows "0 \<le> faceDelayY height ph c" and "faceDelayY height ph c \<le> 125 / 1000"
proof -
  define q where "q = \<bar>vy c\<bar> / (height / 2)"
  have q: "0 \<le> q" "q \<le> 1" using assms by (simp_all add: q_def)
  have e: "faceDelayY height ph c
             = (if ph = PhaseIn then q * (125 / 1000) else 125 / 1000 - q * (125 / 1000))"
    by (simp add: q_def faceDelayY_def mapLinear_def maxDelayY_def)
  show "0 \<le> faceDelayY height ph c"
    unfolding e using q by (cases "ph = PhaseIn") simp_all
  show "faceDelayY height ph c \<le> 125 / 1000"
    unfolding e using q by (cases "ph = PhaseIn") simp_all
qed

lemma processFace_set:
  "v \<in> set (processFace width height ph rnd k f) \<Longrightarrow>
     duration v = faceDuration rnd k
     \<and> (\<exists>i \<in> {1, 2, 3}. delay v = faceDelayX width (faceCentroid f)
            + faceDelayY height ph (faceCentroid f) + rnd (k + i) * stretch * faceDuration rnd k)"
  by (cases f) (auto simp add: processFace_def Let_def numeral_eq_Suc)

lemma face_timing_bounds:
  assumes "unit_draws rnd" and "0 < width" and "0 < height"
    and "\<bar>vx (faceCentroid f)\<bar> \<le> width / 2" and "\<bar>vy (faceCentroid f)\<bar> \<le> height / 2"
    and "v \<in> set (processFace width height ph rnd k f)"
  shows "0 \<le> delay v" and "0 < duration v"
    and "delay v + duration v < maxDuration + maxDelayX + maxDelayY + stretch * maxDuration"
proof -
  from processFace_set[OF assms(6)] obtain i where
    d: "duration v = faceDuration rnd k" and
    e: "delay v = faceDelayX width (faceCentroid f) + faceDelayY height ph (faceCentroid f)
          + rnd (k + i) * stretch * faceDuration rnd k"
    by blast
  note du = faceDuration_bounds[OF assms(1), of k]
  note x = faceDelayX_bounds[OF assms(2,4)]
  note y = faceDelayY_bounds[OF assms(3,5), of ph]
  from assms(1) have r: "0 \<le> rnd (k + i)" "rnd (k + i) < 1" by (simp_all add: unit_draws_def)
  define jit where "jit = rnd (k + i) * faceDuration rnd k"
  have je: "rnd (k + i) * (11 / 100) * faceDuration rnd k = 11 / 100 * jit"
    by (simp add: jit_def)
  have "0 \<le> rnd (k + i) * faceDuration rnd k"
    using r du by (intro mult_nonneg_nonneg) simp_all
  then have j0: "0 \<le> jit" by (simp add: jit_def)
  have "rnd (k + i) * faceDuration rnd k \<le> 1 * faceDuration rnd k"
    using r du by (intro mult_right_mono) simp_all
  then have j1: "jit \<le> faceDuration rnd k" by (simp add: jit_def)
  show "0 \<le> delay v" unfolding e stretch_def je using x(1) y(1) j0 by linarith
  show "0 < duration v" unfolding d using du by linarith
  show "delay v + duration v < maxDuration + maxDelayX + maxDelayY + stretch * maxDuration"
    unfolding e d maxDuration_def maxDelayX_def maxDelayY_def stretch_def je
    using x(2) y(2) j1 du by linarith
qed

lemma corner_centroid: "faceCentroid cornerFace = Vector3 (299 / 6) (89 / 3) 0"
  by (simp add: faceCentroid_def cornerFace_def vadd_def divideScalar_def)

lemma corner_delayX: "faceDelayX 100 (faceCentroid cornerFace) = 1797 / 2000"
  by (simp add: corner_centroid faceDelayX_def mapLinear_def maxDelayX_def)

lemma corner_delayY: "faceDelayY 60 PhaseIn (faceCentroid cornerFace) = 89 / 720"
  by (simp add: corner_centroid faceDelayY_def mapLinear_def maxDelayY_def)

lemma processFace_timing:
  "map (\<lambda>v. (delay v, duration v)) (processFace width height ph rnd k f) =
     map (\<lambda>v. (faceDelayX width (faceCentroid f) + faceDelayY height ph (faceCentroid f)
                  + rnd (k + 1 + v) * stretch * faceDuration rnd k,
                faceDuration rnd k)) [0, 1, 2]"
  by (cases f) (simp add: processFace_def Let_def)

lemma processFace_length: "length (processFace width height ph rnd k f) = 3"
  by (cases f) (simp add: processFace_def Let_def)

lemma processFace_delays:
  "map delay (processFace width height ph rnd k f)
     = [faceDelayX width (faceCentroid f) + faceDelayY height ph (faceCentroid f)
          + rnd (k + 1) * stretch * faceDuration rnd k,
        faceDelayX width (faceCentroid f) + faceDelayY height ph (faceCentroid f)
          + rnd (k + 2) * stretch * faceDuration rnd k,
        faceDelayX width (faceCentroid f) + faceDelayY height ph (faceCentroid f)
          + rnd (k + 3) * stretch * faceDuration rnd k]"
  by (cases f) (simp add: processFace_def Let_def numeral_eq_Suc)

lemma processFace_durations:
  "map duration (processFace width height ph rnd k f)
     = [faceDuration rnd k, faceDuration rnd k, faceDuration rnd k]"
  by (cases f) (simp add: processFace_def Let_def)

text \<open>
  Claim C2, evaluated where the code departs from it. The face is the corner triangle
  of the plane of width 100 and height 60, phase \<^verbatim>\<open>'in'\<close>, and every draw of
  \<^verbatim>\<open>Math.random()\<close> is 0.99. The duration is 1.196 and each vertex gets the delay
  \<open>9199/9000 + 325611/2500000\<close>, about 1.152: \<open>delay + duration\<close> is about 2.348 and
  exceeds \<open>totalDuration = 2.335\<close>. The bound adds \<open>stretch\<close> where the jitter can reach
  \<open>stretch * maxDuration\<close>.
\<close>

theorem C2_corner_face_overruns:
  "unit_draws draws_high
   \<and> map (\<lambda>v. (delay v, duration v)) (processFace 100 60 PhaseIn draws_high 0 cornerFace)
       = [(9199 / 9000 + 325611 / 2500000, 299 / 250),
          (9199 / 9000 + 325611 / 2500000, 299 / 250),
          (9199 / 9000 + 325611 / 2500000, 299 / 250)]
   \<and> totalDuration < 9199 / 9000 + 325611 / 2500000 + 299 / 250"
proof -
  have u: "unit_draws draws_high"
    by (simp add: unit_draws_def draws_high_def)
  have d: "faceDuration draws_high 0 = 299 / 250"
    by (simp add: faceDuration_def randFloat_def minDuration_def maxDuration_def draws_high_def)
  have t: "totalDuration < 9199 / 9000 + 325611 / 2500000 + 299 / 250"
    by (simp add: totalDuration_def maxDuration_def maxDelayX_def maxDelayY_def stretch_def)
  show ?thesis
    using u t by (simp add: processFace_timing corner_delayX corner_delayY d draws_high_def stretch_def)
qed

subsection \<open>The total duration\<close>

text \<open>
  The sum of the four constants is 2.335, so the value 2.135 is not what the
  constructor stores.
\<close>

theorem C3_totalDuration_not_2135:
  "slideTotalDuration (Slide_new 100 60 PhaseIn [cornerFace] draws_ramp 0) \<noteq> 2135 / 1000"
  by (simp add: Slide_new_def totalDuration_def maxDuration_def maxDelayX_def maxDelayY_def
      stretch_def)

text \<open>
  Claim C3, amended. \<open>totalDuration\<close> is \<open>maxDuration + maxDelayX + maxDelayY + stretch\<close>;
  with the constants 1.2, 0.9, 0.125 and 0.11 that is 2.335, and the constructor stores
  this value whatever the dimensions, the phase, the triangles and the random draws are.
\<close>

theorem C3_totalDuration_value:
  "totalDuration = maxDuration + maxDelayX + maxDelayY + stretch
   \<and> totalDuration = 2335 / 1000
   \<and> slideTotalDuration (Slide_new width height ph faces rnd k) = 2335 / 1000"
  by (simp add: Slide_new_def totalDuration_def maxDuration_def maxDelayX_def maxDelayY_def
      stretch_def)

subsection \<open>One jitter draw for each vertex\<close>

text \<open>
  With the draws 0.1, 0.2, 0.3 for the three vertices of the corner face, the three
  delays differ.
\<close>

theorem C5_vertices_differ_in_delay:
  "map delay (processFace 100 60 PhaseIn draws_ramp 0 cornerFace)
     = [9199 / 9000 + 11 / 1250, 9199 / 9000 + 11 / 625, 9199 / 9000 + 33 / 1250]
   \<and> delay (processFace 100 60 PhaseIn draws_ramp 0 cornerFace ! 0)
       \<noteq> delay (processFace 100 60 PhaseIn draws_ramp 0 cornerFace ! 1)"
proof -
  have d: "faceDuration draws_ramp 0 = 4 / 5"
    by (simp add: faceDuration_def randFloat_def minDuration_def maxDuration_def draws_ramp_def)
  have m: "map delay (processFace 100 60 PhaseIn draws_ramp 0 cornerFace)
     = [9199 / 9000 + 11 / 1250, 9199 / 9000 + 11 / 625, 9199 / 9000 + 33 / 1250]"
    by (simp add: processFace_delays corner_delayX corner_delayY d draws_ramp_def stretch_def)
  have n: "delay (processFace 100 60 PhaseIn draws_ramp 0 cornerFace ! 0)
             = map delay (processFace 100 60 PhaseIn draws_ramp 0 cornerFace) ! 0"
    "delay (processFace 100 60 PhaseIn draws_ramp 0 cornerFace ! 1)
             = map delay (processFace 100 60 PhaseIn draws_ramp 0 cornerFace) ! 1"
    by (simp_all add: processFace_length)
  have "delay (processFace 100 60 PhaseIn draws_ramp 0 cornerFace ! 0)
       \<noteq> delay (processFace 100 60 PhaseIn draws_ramp 0 cornerFace ! 1)"
    unfolding n m by simp
  with m show ?thesis by blast
qed

text \<open>
  Claim C5, amended. The duration is drawn once for a face and its three vertices carry
  it; the jitter is drawn inside the loop over the vertices, once for each vertex, so
  the three delays share \<open>delayX + delayY\<close> and differ by their own draws times
  \<open>stretch * duration\<close>.
\<close>

theorem C5_jitter_per_vertex:
  "map duration (processFace width height ph rnd k f)
     = [faceDuration rnd k, faceDuration rnd k, faceDuration rnd k]
   \<and> map delay (processFace width height ph rnd k f)
     = [faceDelayX width (faceCentroid f) + faceDelayY height ph (faceCentroid f)
          + rnd (k + 1) * stretch * faceDuration rnd k,
        faceDelayX width (faceCentroid f) + faceDelayY height ph (faceCentroid f)
          + rnd (k + 2) * stretch * faceDuration rnd k,
        faceDelayX width (faceCentroid f) + faceDelayY height ph (faceCentroid f)
          + rnd (k + 3) * stretch * faceDuration rnd k]"
  using processFace_durations processFace_delays by simp

subsection \<open>The shader's progress\<close>

lemma cube_mono: "(a::real) \<le> b \<Longrightarrow> a * a * a \<le> b * b * b"
proof -
  assume "a \<le> b"
  then have "a ^ 3 \<le> b ^ 3" by (rule power_mono_odd[rotated]) simp
  then show ?thesis by (simp add: power3_eq_cube)
qed

lemma ease_curve: "ease t 0 1 d = easeCurve (t / (d / 2))"
  by (simp add: ease_def easeCurve_def Let_def)

lemma easeCurve_mono:
  assumes "0 \<le> u" "u \<le> u'"
  shows "easeCurve u \<le> easeCurve u'"
proof -
  consider "u' < 1" | "u < 1" "1 \<le> u'" | "1 \<le> u" by linarith
  then show ?thesis
  proof cases
    case 1
    with assms have "u * u * u \<le> u' * u' * u'" by (intro cube_mono)
    with 1 assms show ?thesis by (simp add: easeCurve_def)
  next
    case 2
    have "u * u * u \<le> 1 * 1 * 1" using 2 by (intro cube_mono) simp
    moreover have "(-1) * (-1) * (-1) \<le> (u' - 2) * (u' - 2) * (u' - 2)"
      using 2 by (intro cube_mono) simp
    ultimately show ?thesis using 2 by (simp add: easeCurve_def)
  next
    case 3
    then have "(u - 2) * (u - 2) * (u - 2) \<le> (u' - 2) * (u' - 2) * (u' - 2)"
      using assms by (intro cube_mono) simp
    with 3 assms show ?thesis by (simp add: easeCurve_def)
  qed
qed

lemma easeCurve_easeInOutCubic: "easeCurve (2 * u) = easeInOutCubic u"
proof (cases "u < 1 / 2")
  case True
  then show ?thesis by (simp add: easeCurve_def easeInOutCubic_def power3_eq_cube)
next
  case False
  have "1 / 2 * ((2 * u - 2) * (2 * u - 2) * (2 * u - 2) + 2) = 1 - (- 2 * u + 2) ^ 3 / 2"
    by (simp add: power3_eq_cube) algebra
  with False show ?thesis by (simp add: easeCurve_def easeInOutCubic_def)
qed

lemma tProgress_easeInOutCubic:
  assumes "0 < tDuration"
  shows "tProgress tm tDelay tDuration
           = easeInOutCubic (glsl_clamp (tm - tDelay) 0 tDuration / tDuration)"
proof -
  have "glsl_clamp (tm - tDelay) 0 tDuration / (tDuration / 2)
          = 2 * (glsl_clamp (tm - tDelay) 0 tDuration / tDuration)"
    by simp
  then show ?thesis
    by (simp add: tProgress_def ease_curve Let_def easeCurve_easeInOutCubic del: times_divide_eq_right)
qed

text \<open>
  Claim C6. For a vertex with a positive duration (every duration the constructor
  writes is at least 0.8) the progress the shader computes is
  \<open>easeInOutCubic(clamp(time - delay, 0, duration) / duration)\<close>; it is 0 up to the
  delay, exactly 1 from \<open>delay + duration\<close> on, and never decreases as the time grows.
\<close>

theorem C6_progress:
  assumes "0 < tDuration"
  shows "tProgress tm tDelay tDuration
           = easeInOutCubic (glsl_clamp (tm - tDelay) 0 tDuration / tDuration)
       \<and> (tm \<le> tDelay \<longrightarrow> tProgress tm tDelay tDuration = 0)
       \<and> (tDelay + tDuration \<le> tm \<longrightarrow> tProgress tm tDelay tDuration = 1)
       \<and> (tm \<le> tm' \<longrightarrow> tProgress tm tDelay tDuration \<le> tProgress tm' tDelay tDuration)"
proof (intro conjI impI)
  show "tProgress tm tDelay tDuration
           = easeInOutCubic (glsl_clamp (tm - tDelay) 0 tDuration / tDuration)"
    using assms by (rule tProgress_easeInOutCubic)
next
  assume "tm \<le> tDelay"
  with assms show "tProgress tm tDelay tDuration = 0"
    by (simp add: tProgress_def glsl_clamp_def ease_def Let_def max_def min_def)
next
  assume "tDelay + tDuration \<le> tm"
  with assms have "glsl_clamp (tm - tDelay) 0 tDuration = tDuration"
    by (simp add: glsl_clamp_def max_def min_def)
  with assms show "tProgress tm tDelay tDuration = 1"
    by (simp add: tProgress_def ease_def Let_def)
next
  assume le: "tm \<le> tm'"
  let ?c = "\<lambda>t. glsl_clamp (t - tDelay) 0 tDuration"
  have c0: "0 \<le> ?c tm" using assms by (simp add: glsl_clamp_def max_def min_def)
  have cm: "?c tm \<le> ?c tm'" using le by (simp add: glsl_clamp_def max_def min_def)
  have "0 \<le> ?c tm / (tDuration / 2)" using c0 assms by simp
  moreover have "?c tm / (tDuration / 2) \<le> ?c tm' / (tDuration / 2)"
    using cm assms by (simp add: divide_right_mono)
  ultimately have "easeCurve (?c tm / (tDuration / 2)) \<le> easeCurve (?c tm' / (tDuration / 2))"
    by (rule easeCurve_mono)
  then show "tProgress tm tDelay tDuration \<le> tProgress tm' tDelay tDuration"
    by (simp add: tProgress_def ease_curve Let_def)
qed

theorem C6_progress_witness:
  "(0::real) < 1
   \<and> tProgress 1 (1 / 2) 1 = easeInOutCubic (1 / 2)
   \<and> tProgress (1 / 2) (1 / 2) 1 = 0
   \<and> tProgress 2 (1 / 2) 1 = 1
   \<and> tProgress 1 (1 / 2) 1 \<le> tProgress (5 / 4) (1 / 2) 1"
proof -
  have p: "(0::real) < 1" by simp
  have a: "tProgress 1 (1 / 2) 1 = easeInOutCubic (1 / 2)"
    using C6_progress[OF p, THEN conjunct1, of 1 "1 / 2"] by (simp add: glsl_clamp_def)
  have z: "tProgress (1 / 2) (1 / 2) 1 = 0"
    by (rule C6_progress[OF p, THEN conjunct2, THEN conjunct1, THEN mp]) simp
  have o: "tProgress 2 (1 / 2) 1 = 1"
    by (rule C6_progress[OF p, THEN conjunct2, THEN conjunct2, THEN conjunct1, THEN mp]) simp
  have m: "tProgress 1 (1 / 2) 1 \<le> tProgress (5 / 4) (1 / 2) 1"
    by (rule C6_progress[OF p, THEN conjunct2, THEN conjunct2, THEN conjunct2, THEN mp]) simp
  from p a z o m show ?thesis by blast
qed

section \<open>The states after initialisation\<close>

lemma preload_offsets:
  "filter (\<lambda>offset. offset \<noteq> 0) [- preloadRadius..preloadRadius] = [- 3, - 2, - 1, 1, 2, 3]"
  unfolding preloadRadius_def by (simp add: upto_rec1)

lemma dims_photo: "calculatePlaneDimensions (image_width photo) (image_height photo) = (100, 60)"
  by (simp add: calculatePlaneDimensions_def photo_def MAX_WIDTH_def MAX_HEIGHT_def Let_def)

lemma preload_cached:
  assumes "js_rem (c + off + int (length (imagePaths g))) (int (length (imagePaths g))) = i"
    and "textures g i = Some t"
  shows "preloadLoop e c (off # offs) g = preloadLoop e c offs g"
  using assms by (simp add: Let_def)

lemma preload_failed:
  assumes "js_rem (c + off + int (length (imagePaths g))) (int (length (imagePaths g))) = i"
    and "textures g i = None"
    and "loadTexture e (path_at (imagePaths g) i) = Inl err"
  shows "preloadLoop e c (off # offs) g = preloadLoop e c offs g"
  using assms by (simp add: Let_def)

lemma preload_loaded:
  assumes "js_rem (c + off + int (length (imagePaths g))) (int (length (imagePaths g))) = i"
    and "textures g i = None"
    and "loadTexture e (path_at (imagePaths g) i) = Inr t"
  shows "preloadLoop e c (off # offs) g = preloadLoop e c offs (g\<lparr>textures := (textures g)(i \<mapsto> t)\<rparr>)"
  using assms by (simp add: Let_def)

lemma init_ab_start:
  "gallery_init env_first_only (gallery_new [''a.jpg'', ''b.jpg''])
     = (preloadAround env_first_only 0 gallery_ab, Resolved)"
  by (simp add: gallery_init_def gallery_new_def env_first_only_def path_at_def newSlide_def
      dims_photo autoAdvance_def gallery_ab_def first_slide_def Slide_new_def setTexture_def
      set_time_def)

lemma ab_path: "path_at (imagePaths gallery_ab) i = (if i = 0 then ''a.jpg'' else if i = 1 then ''b.jpg'' else ''undefined'')"
  by (auto simp add: gallery_ab_def path_at_def nat_eq_iff2)

lemma ab_fail: "i \<noteq> 0 \<Longrightarrow> loadTexture env_first_only (path_at (imagePaths gallery_ab) i) = Inl ''NotFound''"
  by (simp add: ab_path env_first_only_def)

lemma ab_tex: "textures gallery_ab i = (if i = 0 then Some photo else None)"
  by (simp add: gallery_ab_def)

lemma ab_len: "int (length (imagePaths gallery_ab)) = 2"
  by (simp add: gallery_ab_def)

lemma preload_ab: "preloadAround env_first_only 0 gallery_ab = gallery_ab"
  unfolding preloadAround_def preload_offsets
  apply (subst preload_failed[where i = "- 1" and err = "''NotFound''"])
     apply (simp add: ab_len js_rem_def)
    apply (simp add: ab_tex)
   apply (simp add: ab_fail)
  apply (subst preload_cached[where i = 0 and t = photo])
    apply (simp add: ab_len js_rem_def)
   apply (simp add: ab_tex)
  apply (subst preload_failed[where i = 1 and err = "''NotFound''"])
     apply (simp add: ab_len js_rem_def)
    apply (simp add: ab_tex)
   apply (simp add: ab_fail)
  apply (subst preload_failed[where i = 1 and err = "''NotFound''"])
     apply (simp add: ab_len js_rem_def)
    apply (simp add: ab_tex)
   apply (simp add: ab_fail)
  apply (subst preload_cached[where i = 0 and t = photo])
    apply (simp add: ab_len js_rem_def)
   apply (simp add: ab_tex)
  apply (subst preload_failed[where i = 1 and err = "''NotFound''"])
     apply (simp add: ab_len js_rem_def)
    apply (simp add: ab_tex)
   apply (simp add: ab_fail)
  apply simp
  done

lemma gallery_ab_reached:
  "gallery_init env_first_only (gallery_new [''a.jpg'', ''b.jpg'']) = (gallery_ab, Resolved)"
  by (simp add: init_ab_start preload_ab)


lemma init_abc_start:
  "gallery_init env_all (gallery_new [''a.jpg'', ''b.jpg'', ''c.jpg''])
     = (preloadAround env_all 0 (gallery_abc\<lparr>textures := [0 \<mapsto> photo]\<rparr>), Resolved)"
  by (simp add: gallery_init_def gallery_new_def env_all_def path_at_def newSlide_def
      dims_photo autoAdvance_def gallery_abc_def first_slide_def Slide_new_def setTexture_def
      set_time_def)

lemma abc_len: "int (length (imagePaths gallery_abc)) = 3"
  by (simp add: gallery_abc_def)

lemma load_all: "loadTexture env_all p = Inr photo"
  by (simp add: env_all_def)

lemma preload_abc:
  "preloadAround env_all 0 (gallery_abc\<lparr>textures := [0 \<mapsto> photo]\<rparr>) = gallery_abc"
  unfolding preloadAround_def preload_offsets
  apply (subst preload_cached[where i = 0 and t = photo])
    apply (simp add: abc_len js_rem_def)
   apply simp
  apply (subst preload_loaded[where i = 1 and t = photo])
     apply (simp add: abc_len js_rem_def)
    apply simp
   apply (simp add: load_all)
  apply (subst preload_loaded[where i = 2 and t = photo])
     apply (simp add: abc_len js_rem_def)
    apply simp
   apply (simp add: load_all)
  apply (subst preload_cached[where i = 1 and t = photo])
    apply (simp add: abc_len js_rem_def)
   apply simp
  apply (subst preload_cached[where i = 2 and t = photo])
    apply (simp add: abc_len js_rem_def)
   apply simp
  apply (subst preload_cached[where i = 0 and t = photo])
    apply (simp add: abc_len js_rem_def)
   apply simp
  apply (simp add: gallery_abc_def)
  done

lemma gallery_abc_reached:
  "gallery_init env_all (gallery_new [''a.jpg'', ''b.jpg'', ''c.jpg'']) = (gallery_abc, Resolved)"
  by (simp add: init_abc_start preload_abc)

section \<open>Navigation\<close>

lemma stopAutoAdvance_eq: "stopAutoAdvance g = g\<lparr>autoAdvanceTimer := False\<rparr>"
  by (simp add: stopAutoAdvance_def)

lemma loadThenTransition_cached:
  assumes "textures g i = Some tex"
  shows "loadThenTransition e i g =
           (g\<lparr> nextSlide := Some (fst (newSlide e tex g)),
                currentSlide := map_option (\<lambda>s. set_time 0 (set_phase PhaseOut s)) (currentSlide g),
                timeline := Some \<lparr> tl_progress = 0, tl_paused = False, tl_target = i \<rparr>,
                randomCalls := snd (newSlide e tex g),
                transitionPending := True \<rparr>, Pending)"
  using assms by (simp add: loadThenTransition_def transitionTo_def split: prod.splits)

lemma loadThenTransition_rejected:
  assumes "textures g i = None" and "loadTexture e (path_at (imagePaths g) i) = Inl err"
  shows "loadThenTransition e i g = (g, Rejected err)"
  using assms by (simp add: loadThenTransition_def)

lemma gallery_next_unfold:
  assumes "\<not> isTransitioning g" and "2 \<le> length (imagePaths g)"
  shows "gallery_next e g =
           loadThenTransition e (js_rem (currentIndex g + 1) (int (length (imagePaths g))))
             (g\<lparr>autoAdvanceTimer := False, isTransitioning := True\<rparr>)"
  using assms by (simp add: gallery_next_def stopAutoAdvance_eq Let_def)

lemma gallery_previous_unfold:
  assumes "\<not> isTransitioning g" and "2 \<le> length (imagePaths g)"
  shows "gallery_previous e g =
           loadThenTransition e
             (js_rem (currentIndex g - 1 + int (length (imagePaths g))) (int (length (imagePaths g))))
             (g\<lparr>autoAdvanceTimer := False, isTransitioning := True\<rparr>)"
  using assms by (simp add: gallery_previous_def stopAutoAdvance_eq Let_def)

lemma preloadLoop_frame:
  "preloadLoop e c offs g = g\<lparr>textures := textures (preloadLoop e c offs g)\<rparr>"
proof (induction offs arbitrary: g)
  case Nil
  show ?case by simp
next
  case (Cons off offs)
  let ?n = "int (length (imagePaths g))"
  let ?t = "js_rem (c + off + ?n) ?n"
  show ?case
  proof (cases "textures g ?t")
    case (Some t)
    then have "preloadLoop e c (off # offs) g = preloadLoop e c offs g"
      by (simp add: Let_def)
    with Cons.IH[of g] show ?thesis by simp
  next
    case None
    show ?thesis
    proof (cases "loadTexture e (path_at (imagePaths g) ?t)")
      case (Inl err)
      with None have "preloadLoop e c (off # offs) g = preloadLoop e c offs g"
        by (simp add: Let_def)
      with Cons.IH[of g] show ?thesis by simp
    next
      case (Inr t)
      let ?g1 = "g\<lparr>textures := (textures g)(?t \<mapsto> t)\<rparr>"
      from None Inr have eq: "preloadLoop e c (off # offs) g = preloadLoop e c offs ?g1"
        by (simp add: Let_def)
      have "preloadLoop e c offs ?g1 = ?g1\<lparr>textures := textures (preloadLoop e c offs ?g1)\<rparr>"
        by (rule Cons.IH)
      then have "preloadLoop e c offs ?g1 = g\<lparr>textures := textures (preloadLoop e c offs ?g1)\<rparr>"
        by simp
      with eq show ?thesis by simp
    qed
  qed
qed

lemma afterTransition_frame:
  "afterTransition e g = g\<lparr>textures := textures (afterTransition e g)\<rparr>"
  unfolding afterTransition_def preloadAround_def autoAdvance_def Let_def
  using preloadLoop_frame[of e "currentIndex g" _ g] by simp

lemma resumeAwaiting_frame:
  "resumeAwaiting e before g = g\<lparr>textures := textures (resumeAwaiting e before g)\<rparr>"
proof (cases "transitionPending before \<and> \<not> transitionPending g")
  case True
  then have "resumeAwaiting e before g = afterTransition e g"
    by (simp add: resumeAwaiting_def)
  with afterTransition_frame[of e g] show ?thesis by simp
next
  case False
  then have "resumeAwaiting e before g = g"
    by (auto simp add: resumeAwaiting_def)
  then show ?thesis by simp
qed

lemma timeline_progress_same:
  assumes "timeline g = Some tln" and "tl_progress tln = v"
  shows "timeline_progress v g = g"
  using assms by (simp add: timeline_progress_def)

lemma timeline_progress_inside:
  assumes "timeline g = Some tln" and "v \<noteq> 1"
  shows "timeline_progress v g = g\<lparr>timeline := Some (tln\<lparr>tl_progress := v\<rparr>)\<rparr>"
proof (cases "tl_progress tln = v")
  case True
  then have "tln\<lparr>tl_progress := v\<rparr> = tln" by simp
  with assms(1) have "g\<lparr>timeline := Some (tln\<lparr>tl_progress := v\<rparr>)\<rparr> = g" by simp
  with timeline_progress_same[OF assms(1) True] show ?thesis by simp
next
  case False
  with assms show ?thesis by (simp add: timeline_progress_def Let_def)
qed

lemma timeline_progress_end:
  assumes "timeline g = Some tln" and "tl_progress tln \<noteq> 1"
  shows "timeline_progress 1 g
           = onComplete (tl_target tln) (g\<lparr>timeline := Some (tln\<lparr>tl_progress := 1\<rparr>)\<rparr>)"
  using assms by (simp add: timeline_progress_def Let_def)

lemma timeline_progress_timeline:
  assumes "timeline g = Some tln"
  shows "timeline (timeline_progress v g) = Some (tln\<lparr>tl_progress := v\<rparr>)"
proof (cases "tl_progress tln = v")
  case True
  then have "tln\<lparr>tl_progress := v\<rparr> = tln" by simp
  with assms timeline_progress_same[OF assms True] show ?thesis by simp
next
  case False
  with assms show ?thesis by (simp add: timeline_progress_def Let_def onComplete_def)
qed

lemma playheadTo_timeline:
  assumes "timeline g = Some tln"
  shows "timeline (playheadTo e v g) = Some (tln\<lparr>tl_progress := v\<rparr>)"
proof -
  have "timeline (playheadTo e v g) = timeline (timeline_progress v g)"
    unfolding playheadTo_def
    by (subst resumeAwaiting_frame) simp
  with timeline_progress_timeline[OF assms] show ?thesis by simp
qed

lemma playheadTo_inside:
  assumes "timeline g = Some tln" and "v \<noteq> 1"
  shows "playheadTo e v g = g\<lparr>timeline := Some (tln\<lparr>tl_progress := v\<rparr>)\<rparr>"
  unfolding playheadTo_def timeline_progress_inside[OF assms]
  by (simp add: resumeAwaiting_def)

lemma playheadTo_end_fields:
  assumes "timeline g = Some tln" and "tl_progress tln \<noteq> 1"
  shows "currentIndex (playheadTo e 1 g) = tl_target tln"
    and "isTransitioning (playheadTo e 1 g) = False"
    and "currentSlide (playheadTo e 1 g) = nextSlide g"
    and "nextSlide (playheadTo e 1 g) = None"
    and "imagePaths (playheadTo e 1 g) = imagePaths g"
    and "transitionPending (playheadTo e 1 g) = False"
    and "autoAdvanceTimer (playheadTo e 1 g) = autoAdvanceTimer g"
proof -
  let ?g1 = "onComplete (tl_target tln) (g\<lparr>timeline := Some (tln\<lparr>tl_progress := 1\<rparr>)\<rparr>)"
  have c: "playheadTo e 1 g = resumeAwaiting e g ?g1"
    by (simp add: playheadTo_def timeline_progress_end[OF assms])
  have f: "resumeAwaiting e g ?g1 = ?g1\<lparr>textures := textures (resumeAwaiting e g ?g1)\<rparr>"
    by (rule resumeAwaiting_frame)
  show "currentIndex (playheadTo e 1 g) = tl_target tln"
    unfolding c by (subst f) (simp add: onComplete_def)
  show "isTransitioning (playheadTo e 1 g) = False"
    unfolding c by (subst f) (simp add: onComplete_def)
  show "currentSlide (playheadTo e 1 g) = nextSlide g"
    unfolding c by (subst f) (simp add: onComplete_def)
  show "nextSlide (playheadTo e 1 g) = None"
    unfolding c by (subst f) (simp add: onComplete_def)
  show "imagePaths (playheadTo e 1 g) = imagePaths g"
    unfolding c by (subst f) (simp add: onComplete_def)
  show "transitionPending (playheadTo e 1 g) = False"
    unfolding c by (subst f) (simp add: onComplete_def)
  show "autoAdvanceTimer (playheadTo e 1 g) = autoAdvanceTimer g"
    unfolding c by (subst f) (simp add: onComplete_def)
qed

lemma timelineCompletes_fields:
  assumes "timeline g = Some tln" and "tl_progress tln \<noteq> 1"
  shows "currentIndex (timelineCompletes e g) = tl_target tln"
    and "isTransitioning (timelineCompletes e g) = False"
    and "currentSlide (timelineCompletes e g) = nextSlide g"
    and "nextSlide (timelineCompletes e g) = None"
    and "timeline (timelineCompletes e g) = Some (tln\<lparr>tl_progress := 1\<rparr>)"
    and "imagePaths (timelineCompletes e g) = imagePaths g"
  unfolding timelineCompletes_def
  using playheadTo_end_fields[OF assms, of e] playheadTo_timeline[OF assms(1), of e 1]
  by simp_all

text \<open>The first steps from the states after initialisation.\<close>

lemma next_abc:
  "gallery_next env_all gallery_abc =
     (gallery_abc\<lparr> isTransitioning := True,
         nextSlide := Some (fst (newSlide env_all photo gallery_abc)),
         currentSlide := Some (set_time 0 (set_phase PhaseOut first_slide)),
         timeline := Some \<lparr> tl_progress = 0, tl_paused = False, tl_target = 1 \<rparr>,
         randomCalls := snd (newSlide env_all photo gallery_abc),
         transitionPending := True \<rparr>, Pending)"
proof -
  have idle: "\<not> isTransitioning gallery_abc" "2 \<le> length (imagePaths gallery_abc)"
    by (simp_all add: gallery_abc_def)
  have i: "js_rem (currentIndex gallery_abc + 1) (int (length (imagePaths gallery_abc))) = 1"
    by (simp add: gallery_abc_def js_rem_def)
  have t: "textures (gallery_abc\<lparr>autoAdvanceTimer := False, isTransitioning := True\<rparr>) 1 = Some photo"
    by (simp add: gallery_abc_def)
  show ?thesis
    unfolding gallery_next_unfold[OF idle] i loadThenTransition_cached[OF t]
    by (simp add: gallery_abc_def newSlide_def)
qed


section \<open>Dropped navigation calls\<close>

text \<open>
  Claim C1. In every gallery state where \<open>isTransitioning\<close> is set, and in every state
  whose image list has fewer than two entries, \<^verbatim>\<open>next()\<close> and \<^verbatim>\<open>previous()\<close>
  return a resolved promise and the state they leave is the state they found: index,
  slides and timeline are untouched, nothing is created and nothing is queued.
\<close>

theorem C1_navigation_dropped:
  assumes "isTransitioning g \<or> length (imagePaths g) < 2"
  shows "gallery_next e g = (g, Resolved) \<and> gallery_previous e g = (g, Resolved)"
  using assms by (auto simp: gallery_next_def gallery_previous_def)

text \<open>
  Both hypotheses occur: the three-image gallery right after a \<^verbatim>\<open>next()\<close> has
  started its transition, and a gallery of one image.
\<close>

theorem C1_navigation_dropped_witness:
  "(isTransitioning (fst (gallery_next env_all gallery_abc))
      \<or> length (imagePaths (fst (gallery_next env_all gallery_abc))) < 2)
   \<and> gallery_next env_all (fst (gallery_next env_all gallery_abc))
       = (fst (gallery_next env_all gallery_abc), Resolved)
   \<and> gallery_previous env_all (fst (gallery_next env_all gallery_abc))
       = (fst (gallery_next env_all gallery_abc), Resolved)
   \<and> length (imagePaths (gallery_new [''a.jpg''])) < 2
   \<and> gallery_next env_all (gallery_new [''a.jpg'']) = (gallery_new [''a.jpg''], Resolved)
   \<and> gallery_previous env_all (gallery_new [''a.jpg'']) = (gallery_new [''a.jpg''], Resolved)"
proof -
  have h1: "isTransitioning (fst (gallery_next env_all gallery_abc))
      \<or> length (imagePaths (fst (gallery_next env_all gallery_abc))) < 2"
    by (simp add: next_abc)
  have h2: "isTransitioning (gallery_new [''a.jpg'']) \<or> length (imagePaths (gallery_new [''a.jpg''])) < 2"
    by (simp add: gallery_new_def)
  have l: "length (imagePaths (gallery_new [''a.jpg''])) < 2"
    by (simp add: gallery_new_def)
  show ?thesis
    using h1 l C1_navigation_dropped[OF h1, of env_all] C1_navigation_dropped[OF h2, of env_all]
    by blast
qed

section \<open>A failed texture load\<close>

text \<open>
  Claim C4, evaluated where the code departs from it. The gallery of two images is
  initialised while only the first image can be loaded; the preload of the second fails
  and is swallowed. \<^verbatim>\<open>next()\<close> (and \<^verbatim>\<open>previous()\<close>) then set
  \<open>isTransitioning\<close>, the load at the \<^verbatim>\<open>await\<close> is rejected and so is the returned
  promise, and the flag stays set: every later call is dropped, also once the image can
  be loaded.
\<close>

theorem C4_failed_load_keeps_lock:
  "gallery_init env_first_only (gallery_new [''a.jpg'', ''b.jpg'']) = (gallery_ab, Resolved)
   \<and> gallery_next env_first_only gallery_ab
       = (gallery_ab\<lparr>isTransitioning := True\<rparr>, Rejected ''NotFound'')
   \<and> gallery_previous env_first_only gallery_ab
       = (gallery_ab\<lparr>isTransitioning := True\<rparr>, Rejected ''NotFound'')
   \<and> isTransitioning (fst (gallery_next env_first_only gallery_ab))
   \<and> gallery_next env_all (gallery_ab\<lparr>isTransitioning := True\<rparr>)
       = (gallery_ab\<lparr>isTransitioning := True\<rparr>, Resolved)
   \<and> gallery_previous env_all (gallery_ab\<lparr>isTransitioning := True\<rparr>)
       = (gallery_ab\<lparr>isTransitioning := True\<rparr>, Resolved)"
proof -
  have idle: "\<not> isTransitioning gallery_ab" "2 \<le> length (imagePaths gallery_ab)"
    by (simp_all add: gallery_ab_def)
  have i: "js_rem (currentIndex gallery_ab + 1) (int (length (imagePaths gallery_ab))) = 1"
    "js_rem (currentIndex gallery_ab - 1 + int (length (imagePaths gallery_ab)))
       (int (length (imagePaths gallery_ab))) = 1"
    by (simp_all add: gallery_ab_def js_rem_def)
  let ?g = "gallery_ab\<lparr>autoAdvanceTimer := False, isTransitioning := True\<rparr>"
  have g: "?g = gallery_ab\<lparr>isTransitioning := True\<rparr>"
    by (simp add: gallery_ab_def)
  have t: "textures (gallery_ab\<lparr>isTransitioning := True\<rparr>) 1 = None"
    by (simp add: gallery_ab_def)
  have f: "loadTexture env_first_only
             (path_at (imagePaths (gallery_ab\<lparr>isTransitioning := True\<rparr>)) 1) = Inl ''NotFound''"
    by (simp add: gallery_ab_def path_at_def env_first_only_def)
  have n: "gallery_next env_first_only gallery_ab
       = (gallery_ab\<lparr>isTransitioning := True\<rparr>, Rejected ''NotFound'')"
    unfolding gallery_next_unfold[OF idle] i g by (rule loadThenTransition_rejected[OF t f])
  have p: "gallery_previous env_first_only gallery_ab
       = (gallery_ab\<lparr>isTransitioning := True\<rparr>, Rejected ''NotFound'')"
    unfolding gallery_previous_unfold[OF idle] i g by (rule loadThenTransition_rejected[OF t f])
  have d: "gallery_next env_all (gallery_ab\<lparr>isTransitioning := True\<rparr>)
       = (gallery_ab\<lparr>isTransitioning := True\<rparr>, Resolved)"
    "gallery_previous env_all (gallery_ab\<lparr>isTransitioning := True\<rparr>)
       = (gallery_ab\<lparr>isTransitioning := True\<rparr>, Resolved)"
    by (simp_all add: gallery_next_def gallery_previous_def)
  show ?thesis
    using gallery_ab_reached n p d by simp
qed

section \<open>reset\<close>

lemma preloadLoop_keeps:
  "textures g i = Some t \<Longrightarrow> textures (preloadLoop e c offs g) i = Some t"
proof (induction offs arbitrary: g)
  case Nil
  then show ?case by simp
next
  case (Cons off offs)
  let ?n = "int (length (imagePaths g))"
  let ?t = "js_rem (c + off + ?n) ?n"
  show ?case
  proof (cases "textures g ?t")
    case (Some t')
    then have "preloadLoop e c (off # offs) g = preloadLoop e c offs g"
      by (simp add: Let_def)
    with Cons show ?thesis by simp
  next
    case None
    show ?thesis
    proof (cases "loadTexture e (path_at (imagePaths g) ?t)")
      case (Inl err)
      with None have "preloadLoop e c (off # offs) g = preloadLoop e c offs g"
        by (simp add: Let_def)
      with Cons show ?thesis by simp
    next
      case (Inr t')
      let ?g1 = "g\<lparr>textures := (textures g)(?t \<mapsto> t')\<rparr>"
      from None Inr have eq: "preloadLoop e c (off # offs) g = preloadLoop e c offs ?g1"
        by (simp add: Let_def)
      from None Cons.prems have "i \<noteq> ?t" by auto
      with Cons.prems have "textures ?g1 i = Some t" by simp
      then have "textures (preloadLoop e c offs ?g1) i = Some t" by (rule Cons.IH)
      with eq show ?thesis by simp
    qed
  qed
qed

lemma afterTransition_keeps:
  "textures g i = Some t \<Longrightarrow> textures (afterTransition e g) i = Some t"
  unfolding afterTransition_def preloadAround_def autoAdvance_def Let_def
  by (simp add: preloadLoop_keeps)

lemma resumeAwaiting_keeps:
  "textures g i = Some t \<Longrightarrow> textures (resumeAwaiting e before g) i = Some t"
  by (simp add: resumeAwaiting_def afterTransition_keeps)

lemma timelineCompletes_textures:
  assumes "timeline g = Some tln" and "textures g i = Some t"
  shows "textures (timelineCompletes e g) i = Some t"
proof -
  have "textures (timeline_progress 1 g) i = Some t"
    using assms by (simp add: timeline_progress_def Let_def onComplete_def)
  then show ?thesis
    unfolding timelineCompletes_def playheadTo_def by (rule resumeAwaiting_keeps)
qed

lemma timelineCompletes_timer:
  assumes "timeline g = Some tln"
  shows "autoAdvanceTimer (timelineCompletes e g) = autoAdvanceTimer g"
proof -
  have t: "autoAdvanceTimer (timeline_progress 1 g) = autoAdvanceTimer g"
    using assms by (simp add: timeline_progress_def Let_def onComplete_def)
  have "autoAdvanceTimer (timelineCompletes e g) = autoAdvanceTimer (timeline_progress 1 g)"
    unfolding timelineCompletes_def playheadTo_def
    by (subst resumeAwaiting_frame) simp
  with t show ?thesis by simp
qed

lemma gallery_next_started:
  assumes "\<not> isTransitioning g" and "2 \<le> length (imagePaths g)"
    and "textures g (js_rem (currentIndex g + 1) (int (length (imagePaths g)))) = Some tex"
  shows "snd (gallery_next e g) = Pending"
    and "isTransitioning (fst (gallery_next e g))"
    and "currentIndex (fst (gallery_next e g)) = currentIndex g"
    and "imagePaths (fst (gallery_next e g)) = imagePaths g"
    and "textures (fst (gallery_next e g)) = textures g"
    and "timeline (fst (gallery_next e g))
           = Some \<lparr> tl_progress = 0, tl_paused = False,
                    tl_target = js_rem (currentIndex g + 1) (int (length (imagePaths g))) \<rparr>"
    and "nextSlide (fst (gallery_next e g))
           = Some (fst (newSlide e tex (g\<lparr>autoAdvanceTimer := False, isTransitioning := True\<rparr>)))"
    and "currentSlide (fst (gallery_next e g))
           = map_option (\<lambda>s. set_time 0 (set_phase PhaseOut s)) (currentSlide g)"
    and "autoAdvanceTimer (fst (gallery_next e g)) = False"
proof -
  have t: "textures (g\<lparr>autoAdvanceTimer := False, isTransitioning := True\<rparr>)
             (js_rem (currentIndex g + 1) (int (length (imagePaths g)))) = Some tex"
    using assms(3) by simp
  note u = gallery_next_unfold[OF assms(1,2)] loadThenTransition_cached[OF t]
  show "snd (gallery_next e g) = Pending" by (simp add: u)
  show "isTransitioning (fst (gallery_next e g))" by (simp add: u)
  show "currentIndex (fst (gallery_next e g)) = currentIndex g" by (simp add: u)
  show "imagePaths (fst (gallery_next e g)) = imagePaths g" by (simp add: u)
  show "textures (fst (gallery_next e g)) = textures g" by (simp add: u)
  show "timeline (fst (gallery_next e g))
           = Some \<lparr> tl_progress = 0, tl_paused = False,
                    tl_target = js_rem (currentIndex g + 1) (int (length (imagePaths g))) \<rparr>"
    by (simp add: u)
  show "nextSlide (fst (gallery_next e g))
           = Some (fst (newSlide e tex (g\<lparr>autoAdvanceTimer := False, isTransitioning := True\<rparr>)))"
    by (simp add: u)
  show "currentSlide (fst (gallery_next e g))
           = map_option (\<lambda>s. set_time 0 (set_phase PhaseOut s)) (currentSlide g)"
    by (simp add: u)
  show "autoAdvanceTimer (fst (gallery_next e g)) = False"
    by (simp add: u)
qed

lemma next_abc_fields:
  "imagePaths (fst (gallery_next env_all gallery_abc)) = [''a.jpg'', ''b.jpg'', ''c.jpg'']"
  "textures (fst (gallery_next env_all gallery_abc)) 0 = Some photo"
  "textures (fst (gallery_next env_all gallery_abc)) 2 = Some photo"
  "autoAdvanceTimer (fst (gallery_next env_all gallery_abc)) = False"
  unfolding next_abc by (simp_all add: gallery_abc_def)

lemma at1_fields:
  "currentIndex gallery_at1 = 1"
  "isTransitioning gallery_at1 = False"
  "imagePaths gallery_at1 = [''a.jpg'', ''b.jpg'', ''c.jpg'']"
  "textures gallery_at1 0 = Some photo"
  "textures gallery_at1 2 = Some photo"
  "autoAdvanceTimer gallery_at1 = False"
proof -
  have t: "timeline (fst (gallery_next env_all gallery_abc))
             = Some \<lparr> tl_progress = 0, tl_paused = False, tl_target = 1 \<rparr>"
    by (simp add: next_abc)
  have nz: "tl_progress \<lparr> tl_progress = 0, tl_paused = False, tl_target = 1 \<rparr> \<noteq> 1"
    by simp
  note c = timelineCompletes_fields[OF t nz, of env_all]
  show "currentIndex gallery_at1 = 1" unfolding gallery_at1_def using c(1) by simp
  show "isTransitioning gallery_at1 = False" unfolding gallery_at1_def by (rule c(2))
  show "imagePaths gallery_at1 = [''a.jpg'', ''b.jpg'', ''c.jpg'']"
    unfolding gallery_at1_def using c(6) by (simp add: next_abc_fields)
  show "textures gallery_at1 0 = Some photo"
    unfolding gallery_at1_def
    by (rule timelineCompletes_textures[OF t]) (simp add: next_abc_fields)
  show "textures gallery_at1 2 = Some photo"
    unfolding gallery_at1_def
    by (rule timelineCompletes_textures[OF t]) (simp add: next_abc_fields)
  show "autoAdvanceTimer gallery_at1 = False"
    unfolding gallery_at1_def timelineCompletes_timer[OF t]
    by (simp add: next_abc_fields)
qed

lemma mid_fields:
  "currentIndex gallery_mid = 1"
  "isTransitioning gallery_mid"
  "imagePaths gallery_mid = [''a.jpg'', ''b.jpg'', ''c.jpg'']"
  "timeline gallery_mid = Some \<lparr> tl_progress = 0, tl_paused = False, tl_target = 2 \<rparr>"
  "autoAdvanceTimer gallery_mid = False"
proof -
  have i: "js_rem (currentIndex gallery_at1 + 1) (int (length (imagePaths gallery_at1))) = 2"
    by (simp add: at1_fields js_rem_def)
  have h: "\<not> isTransitioning gallery_at1" "2 \<le> length (imagePaths gallery_at1)"
    "textures gallery_at1 (js_rem (currentIndex gallery_at1 + 1)
        (int (length (imagePaths gallery_at1)))) = Some photo"
    unfolding i by (simp_all add: at1_fields)
  note s = gallery_next_started[OF h, of env_all]
  show "currentIndex gallery_mid = 1" unfolding gallery_mid_def using s(3) by (simp add: at1_fields)
  show "isTransitioning gallery_mid" unfolding gallery_mid_def by (rule s(2))
  show "imagePaths gallery_mid = [''a.jpg'', ''b.jpg'', ''c.jpg'']"
    unfolding gallery_mid_def using s(4) by (simp add: at1_fields)
  show "timeline gallery_mid = Some \<lparr> tl_progress = 0, tl_paused = False, tl_target = 2 \<rparr>"
    unfolding gallery_mid_def using s(6) i by simp
  show "autoAdvanceTimer gallery_mid = False" unfolding gallery_mid_def by (rule s(9))
qed

text \<open>
  In the three-image gallery at index 1, while the transition to index 2 is in flight,
  \<^verbatim>\<open>reset()\<close> sets the index to 2 at once and its \<^verbatim>\<open>next()\<close> is dropped: no
  transition to index 0 starts, and the running one completes at index 2.
\<close>

theorem C9_reset_during_transition:
  "currentIndex gallery_mid = 1
   \<and> isTransitioning gallery_mid
   \<and> gallery_reset env_all gallery_mid = (gallery_mid\<lparr>currentIndex := 2\<rparr>, Some Resolved)
   \<and> timeline (fst (gallery_reset env_all gallery_mid)) = timeline gallery_mid
   \<and> currentIndex (timelineCompletes env_all (fst (gallery_reset env_all gallery_mid))) = 2"
proof -
  have s: "stopAutoAdvance gallery_mid = gallery_mid"
    by (simp add: stopAutoAdvance_def mid_fields)
  have r: "gallery_reset env_all gallery_mid = (gallery_mid\<lparr>currentIndex := 2\<rparr>, Some Resolved)"
    by (simp add: gallery_reset_def s Let_def mid_fields gallery_next_def)
  have t: "timeline (gallery_mid\<lparr>currentIndex := 2\<rparr>)
             = Some \<lparr> tl_progress = 0, tl_paused = False, tl_target = 2 \<rparr>"
    by (simp add: mid_fields)
  have c: "currentIndex (timelineCompletes env_all (gallery_mid\<lparr>currentIndex := 2\<rparr>)) = 2"
    using timelineCompletes_fields(1)[OF t, of env_all] by simp
  show ?thesis
    using c by (simp add: r mid_fields)
qed

text \<open>
  Claim C9, amended. At index 0 \<^verbatim>\<open>reset()\<close> only cancels the auto-advance timer
  (which the configuration never arms). At an index other than 0, when no transition
  is in flight (and with the first image's texture cached, as \<^verbatim>\<open>init()\<close> leaves it),
  it sets the index to \<open>N - 1\<close> and calls \<^verbatim>\<open>next()\<close>, which starts one transition
  with target 0: the promise is pending, a new slide and a timeline exist, and the
  index becomes 0 only when the timeline completes.
\<close>

theorem C9_reset_when_idle:
  "(currentIndex g = 0 \<longrightarrow> gallery_reset e g = (g\<lparr>autoAdvanceTimer := False\<rparr>, None))
   \<and> (currentIndex g \<noteq> 0 \<and> 2 \<le> length (imagePaths g) \<and> \<not> isTransitioning g
        \<and> textures g 0 = Some tex \<longrightarrow>
        snd (gallery_reset e g) = Some Pending
        \<and> currentIndex (fst (gallery_reset e g)) = int (length (imagePaths g)) - 1
        \<and> isTransitioning (fst (gallery_reset e g))
        \<and> timeline (fst (gallery_reset e g))
            = Some \<lparr> tl_progress = 0, tl_paused = False, tl_target = 0 \<rparr>
        \<and> nextSlide (fst (gallery_reset e g)) \<noteq> None
        \<and> currentIndex (timelineCompletes e (fst (gallery_reset e g))) = 0
        \<and> \<not> isTransitioning (timelineCompletes e (fst (gallery_reset e g)))
        \<and> currentSlide (timelineCompletes e (fst (gallery_reset e g)))
            = nextSlide (fst (gallery_reset e g)))"
proof (intro conjI impI)
  assume "currentIndex g = 0"
  then show "gallery_reset e g = (g\<lparr>autoAdvanceTimer := False\<rparr>, None)"
    by (simp add: gallery_reset_def stopAutoAdvance_eq Let_def)
next
  assume a: "currentIndex g \<noteq> 0 \<and> 2 \<le> length (imagePaths g) \<and> \<not> isTransitioning g
        \<and> textures g 0 = Some tex"
  let ?n = "int (length (imagePaths g))"
  let ?g = "g\<lparr>autoAdvanceTimer := False, currentIndex := ?n - 1\<rparr>"
  have r: "gallery_reset e g = (fst (gallery_next e ?g), Some (snd (gallery_next e ?g)))"
    using a by (simp add: gallery_reset_def stopAutoAdvance_eq Let_def split: prod.splits)
  have w: "js_rem (currentIndex ?g + 1) (int (length (imagePaths ?g))) = 0"
    using a by (simp add: js_rem_def)
  have h: "\<not> isTransitioning ?g" "2 \<le> length (imagePaths ?g)"
    "textures ?g (js_rem (currentIndex ?g + 1) (int (length (imagePaths ?g)))) = Some tex"
    using a by (simp_all only: w) simp_all
  note s = gallery_next_started[OF h, of e]
  have tl: "timeline (fst (gallery_reset e g))
            = Some \<lparr> tl_progress = 0, tl_paused = False, tl_target = 0 \<rparr>"
    unfolding r using s(6) w by simp
  have nz: "tl_progress \<lparr> tl_progress = 0, tl_paused = False, tl_target = 0 \<rparr> \<noteq> 1"
    by simp
  note c = timelineCompletes_fields[OF tl nz, of e]
  show "snd (gallery_reset e g) = Some Pending" unfolding r using s(1) by simp
  show "currentIndex (fst (gallery_reset e g)) = ?n - 1" unfolding r using s(3) by simp
  show "isTransitioning (fst (gallery_reset e g))" unfolding r using s(2) by simp
  show "timeline (fst (gallery_reset e g))
            = Some \<lparr> tl_progress = 0, tl_paused = False, tl_target = 0 \<rparr>" by (rule tl)
  show "nextSlide (fst (gallery_reset e g)) \<noteq> None" unfolding r using s(7) by simp
  show "currentIndex (timelineCompletes e (fst (gallery_reset e g))) = 0" using c(1) by simp
  show "\<not> isTransitioning (timelineCompletes e (fst (gallery_reset e g)))" using c(2) by simp
  show "currentSlide (timelineCompletes e (fst (gallery_reset e g)))
            = nextSlide (fst (gallery_reset e g))" by (rule c(3))
qed


theorem C9_reset_when_idle_witness:
  "currentIndex gallery_abc = 0
   \<and> gallery_reset env_all gallery_abc = (gallery_abc, None)
   \<and> currentIndex gallery_at1 \<noteq> 0 \<and> 2 \<le> length (imagePaths gallery_at1)
   \<and> \<not> isTransitioning gallery_at1 \<and> textures gallery_at1 0 = Some photo
   \<and> snd (gallery_reset env_all gallery_at1) = Some Pending
   \<and> currentIndex (fst (gallery_reset env_all gallery_at1)) = 2
   \<and> currentIndex (timelineCompletes env_all (fst (gallery_reset env_all gallery_at1))) = 0"
proof -
  have z: "currentIndex gallery_abc = 0" by (simp add: gallery_abc_def)
  have e: "gallery_abc\<lparr>autoAdvanceTimer := False\<rparr> = gallery_abc" by (simp add: gallery_abc_def)
  have h: "currentIndex gallery_at1 \<noteq> 0 \<and> 2 \<le> length (imagePaths gallery_at1)
        \<and> \<not> isTransitioning gallery_at1 \<and> textures gallery_at1 0 = Some photo"
    by (simp add: at1_fields)
  show ?thesis
    using z h C9_reset_when_idle[of gallery_abc env_all photo]
      C9_reset_when_idle[of gallery_at1 env_all photo]
    by (simp add: e at1_fields)
qed

section \<open>The scrubber\<close>

lemma abc_idle: "timeline gallery_abc = None" "isTransitioning gallery_abc = False"
  by (simp_all add: gallery_abc_def)

lemma mousedown_abc:
  "mousedown 0 world_abc = world_abc\<lparr>scrub := idle_scrubber\<lparr>mouseDown := True\<rparr>\<rparr>"
  by (simp add: mousedown_def world_abc_def idle_scrubber_def abc_idle)

lemma world_dragged_eq:
  "world_dragged =
     \<lparr> scrub = \<lparr> cx = 40, startX = 0, mouseDown = True, transitionInitiated = True,
                 transitionDirection = Some Next \<rparr>,
       gal = fst (gallery_next env_all gallery_abc),
       thenPending = True \<rparr>"
  unfolding world_dragged_def mousedown_abc
  by (simp add: mousemove_def seek_def world_abc_def idle_scrubber_def abc_idle threshold_def
      attachThen_def next_abc)

lemma dragged_timeline:
  "timeline (gal world_dragged) = Some \<lparr> tl_progress = 0, tl_paused = False, tl_target = 1 \<rparr>"
  by (simp add: world_dragged_eq next_abc)



lemma seek_scrub:
  assumes "transitionInitiated (scrub w)" and "timeline (gal w) = Some tln"
  shows "seek e dx totalDx w =
           fulfilThen (gal w) (w\<lparr>gal := playheadTo e
               (clamp (tl_progress tln
                       + (if transitionDirection (scrub w) = Some Previous then - dx else dx) * seekSpeed) 0 1)
               (gal w)\<rparr>)"
  using assms by (simp add: seek_def Let_def)


lemma pauseTimeline_frame:
  "pauseTimeline g = g\<lparr>timeline := map_option (\<lambda>t. t\<lparr>tl_paused := True\<rparr>) (timeline g)\<rparr>"
  by (cases "timeline g") (simp_all add: pauseTimeline_def)



lemma seek_inside:
  assumes "transitionInitiated (scrub w)" and "timeline (gal w) = Some tln"
    and "clamp (tl_progress tln
                + (if transitionDirection (scrub w) = Some Previous then - dx else dx) * seekSpeed) 0 1
           \<noteq> 1"
  shows "seek e dx totalDx w =
           w\<lparr>gal := (gal w)\<lparr>timeline := Some (tln\<lparr>tl_progress :=
               clamp (tl_progress tln
                      + (if transitionDirection (scrub w) = Some Previous then - dx else dx) * seekSpeed) 0 1\<rparr>)\<rparr>\<rparr>"
  unfolding seek_scrub[OF assms(1,2)] playheadTo_inside[OF assms(2,3)]
  by (simp add: fulfilThen_def)



section \<open>A drag that starts a transition\<close>

text \<open>
  Claim C7, evaluated where the code departs from it. On the idle three-image gallery
  the pointer is pressed at 0 and moved to 40: the direction becomes \<^verbatim>\<open>'next'\<close>,
  \<^verbatim>\<open>next()\<close> starts the transition and the timeline exists at once. The callback
  that pauses it is attached to the promise of \<^verbatim>\<open>next()\<close>, which is fulfilled only
  after the timeline's \<^verbatim>\<open>onComplete\<close>: with the pointer held the timeline is not
  paused, a further move scrubs it while it plays, and the pause comes when the
  transition has completed.
\<close>

theorem C7_started_transition_keeps_playing:
  "transitionDirection (scrub world_dragged) = Some Next
   \<and> mouseDown (scrub world_dragged)
   \<and> isTransitioning (gal world_dragged)
   \<and> timeline (gal world_dragged) = Some \<lparr> tl_progress = 0, tl_paused = False, tl_target = 1 \<rparr>
   \<and> thenPending world_dragged
   \<and> timeline (gal (mousemove env_all 50 world_dragged))
       = Some \<lparr> tl_progress = 1 / 100, tl_paused = False, tl_target = 1 \<rparr>
   \<and> timeline (gal (transitionCompletes env_all world_dragged))
       = Some \<lparr> tl_progress = 1, tl_paused = True, tl_target = 1 \<rparr>"
proof -
  let ?w = "world_dragged\<lparr>scrub := (scrub world_dragged)\<lparr>cx := 50\<rparr>\<rparr>"
  have i: "transitionInitiated (scrub ?w)"
    by (simp add: world_dragged_eq)
  have t: "timeline (gal ?w) = Some \<lparr> tl_progress = 0, tl_paused = False, tl_target = 1 \<rparr>"
    by (simp add: dragged_timeline)
  have d: "transitionDirection (scrub world_dragged) = Some Next" "cx (scrub world_dragged) = 40"
    "mouseDown (scrub world_dragged)" "thenPending world_dragged"
    by (simp_all add: world_dragged_eq)
  have mm: "mousemove env_all 50 world_dragged = seek env_all 10 50 ?w"
    by (simp add: mousemove_def Let_def world_dragged_eq)
  have v: "clamp (tl_progress \<lparr> tl_progress = 0, tl_paused = False, tl_target = 1 \<rparr>
                  + (if transitionDirection (scrub ?w) = Some Previous then - 10 else 10)
                    * seekSpeed) 0 1 = 1 / 100"
    by (simp add: d seekSpeed_def clamp_def)
  have n: "clamp (tl_progress \<lparr> tl_progress = 0, tl_paused = False, tl_target = 1 \<rparr>
                  + (if transitionDirection (scrub ?w) = Some Previous then - 10 else 10)
                    * seekSpeed) 0 1 \<noteq> 1"
    unfolding v by simp
  have m: "timeline (gal (mousemove env_all 50 world_dragged))
       = Some \<lparr> tl_progress = 1 / 100, tl_paused = False, tl_target = 1 \<rparr>"
    unfolding mm seek_inside[OF i t n] v by simp
  have nz: "tl_progress \<lparr> tl_progress = 0, tl_paused = False, tl_target = 1 \<rparr> \<noteq> 1"
    by simp
  have pb: "transitionPending (gal world_dragged)"
    by (simp add: world_dragged_eq next_abc)
  have pa: "\<not> transitionPending (timelineCompletes env_all (gal world_dragged))"
    unfolding timelineCompletes_def
    by (simp add: playheadTo_end_fields(6)[OF dragged_timeline nz])
  have c: "timeline (gal (transitionCompletes env_all world_dragged))
       = Some \<lparr> tl_progress = 1, tl_paused = True, tl_target = 1 \<rparr>"
    by (simp add: transitionCompletes_def fulfilThen_def thenCallback_def pauseTimeline_def d pb pa
        timelineCompletes_fields(5)[OF dragged_timeline nz])
  show ?thesis
    using m c by (simp add: dragged_timeline) (simp add: world_dragged_eq next_abc)
qed

section \<open>Scrubbing\<close>



section \<open>A press on a running transition\<close>






end
